theory Spec2Isabelle
  imports Main "HOL-Library.Word"
begin

section \<open>G3D attribute descriptors, attributes and the attribute collection (g3d.h)\<close>

text \<open>
  The header declares three unscoped enumerations and stores their values in
  \<^verbatim>\<open>int32_t\<close> members; the registries are keyed by \<^verbatim>\<open>int32_t\<close> and
  \<^verbatim>\<open>validate\<close> compares the raw members with the enumerators. The enumerators are
  therefore embedded as the integers they denote. An \<^verbatim>\<open>int32_t\<close> is an \<open>int\<close>;
  the two places where its width matters (\<^verbatim>\<open>stoi\<close> and the product in
  \<^verbatim>\<open>data_element_size\<close>) write the range out. \<^verbatim>\<open>size_t\<close> and pointers are
  64-bit words.
\<close>

subsection \<open>enum DataType\<close>

definition dt_uint8 :: int where "dt_uint8 = 0"
definition dt_uint16 :: int where "dt_uint16 = 1"
definition dt_uint32 :: int where "dt_uint32 = 2"
definition dt_uint64 :: int where "dt_uint64 = 3"
definition dt_uint128 :: int where "dt_uint128 = 4"
definition dt_int8 :: int where "dt_int8 = 5"
definition dt_int16 :: int where "dt_int16 = 6"
definition dt_int32 :: int where "dt_int32 = 7"
definition dt_int64 :: int where "dt_int64 = 8"
definition dt_int128 :: int where "dt_int128 = 9"
definition dt_float16 :: int where "dt_float16 = 10"
definition dt_float32 :: int where "dt_float32 = 11"
definition dt_float64 :: int where "dt_float64 = 12"
definition dt_float128 :: int where "dt_float128 = 13"
definition dt_invalid :: int where "dt_invalid = 14"

subsection \<open>enum Association\<close>

definition assoc_vertex :: int where "assoc_vertex = 0"
definition assoc_face :: int where "assoc_face = 1"
definition assoc_corner :: int where "assoc_corner = 2"
definition assoc_edge :: int where "assoc_edge = 3"
definition assoc_object :: int where "assoc_object = 4"
definition assoc_none :: int where "assoc_none = 5"
definition assoc_invalid :: int where "assoc_invalid = 6"

subsection \<open>enum AttributeType\<close>

definition attr_custom :: int where "attr_custom = 0"
definition attr_coordinate :: int where "attr_coordinate = 1"
definition attr_index :: int where "attr_index = 2"
definition attr_faceindex :: int where "attr_faceindex = 3"
definition attr_facesize :: int where "attr_facesize = 4"
definition attr_normal :: int where "attr_normal = 5"
definition attr_binormal :: int where "attr_binormal = 6"
definition attr_tangent :: int where "attr_tangent = 7"
definition attr_materialid :: int where "attr_materialid = 8"
definition attr_polygroup :: int where "attr_polygroup = 9"
definition attr_uv :: int where "attr_uv = 10"
definition attr_color :: int where "attr_color = 11"
definition attr_smoothing :: int where "attr_smoothing = 12"
definition attr_crease :: int where "attr_crease = 13"
definition attr_hole :: int where "attr_hole = 14"
definition attr_invisibility :: int where "attr_invisibility = 15"
definition attr_selection :: int where "attr_selection = 16"
definition attr_pervertex :: int where "attr_pervertex = 17"
definition attr_mapchannel_data :: int where "attr_mapchannel_data = 18"
definition attr_mapchannel_index :: int where "attr_mapchannel_index = 19"
definition attr_invalid :: int where "attr_invalid = 20"

subsection \<open>Exceptions\<close>

text \<open>
  Every \<^verbatim>\<open>throw runtime_error("...")\<close> of the header is \<open>runtime_error\<close> with the
  message of the source. \<open>out_of_range\<close> is the \<^verbatim>\<open>std::out_of_range\<close> that
  \<^verbatim>\<open>map::at\<close> raises for a missing key and \<^verbatim>\<open>stoi\<close> for a value that does not fit
  an \<^verbatim>\<open>int\<close>; \<open>invalid_argument\<close> is raised by \<^verbatim>\<open>stoi\<close> when no digits can be
  read. \<open>undefined_behaviour\<close> is not an exception: it marks the executions to which
  C++ gives no meaning (signed overflow, \<^verbatim>\<open>%\<close> by zero, a read past the end of the
  source of a copy).
\<close>

datatype error =
    runtime_error string
  | out_of_range
  | invalid_argument
  | undefined_behaviour

text \<open>
  An exception leaves the enclosing function at once: \<open>and_then r k\<close> continues with
  \<open>k\<close> on the value of \<open>r\<close> and passes an exception on.
\<close>

definition and_then :: "error + 'a \<Rightarrow> ('a \<Rightarrow> error + 'b) \<Rightarrow> error + 'b" where
  "and_then r k = (case r of Inl e \<Rightarrow> Inl e | Inr v \<Rightarrow> k v)"

text \<open>
  \<^verbatim>\<open>to_string\<close> is declared \<^verbatim>\<open>const string& to_string() const\<close> and ends with
  \<^verbatim>\<open>return oss.str();\<close>: the reference it returns is bound to the temporary
  string of \<^verbatim>\<open>oss.str()\<close>, which is destroyed at the return. Its result is
  therefore a \<open>string_ref\<close>, the reference to a destroyed temporary that held the
  given text, and a caller that copies or compares it reads a dead object. What
  that read yields is the \<open>reading\<close>: \<open>as_written\<close> is the header as it stands, where
  the read is undefined; \<open>by_value\<close> is the header with the return type read as
  \<^verbatim>\<open>string\<close>, where the caller receives the text.
\<close>

datatype reading = as_written | by_value

datatype string_ref = destroyed_temporary string

definition copy_string :: "reading \<Rightarrow> string_ref \<Rightarrow> error + string" where
  "copy_string rd r =
     (case r of destroyed_temporary text \<Rightarrow>
        (case rd of as_written \<Rightarrow> Inl undefined_behaviour | by_value \<Rightarrow> Inr text))"

subsection \<open>struct AttributeDescriptor\<close>

text \<open>
  The five semantic members, under the names of their accessors
  (\<^verbatim>\<open>association()\<close> returns \<^verbatim>\<open>_association\<close>, and so on). The members
  \<^verbatim>\<open>_pad0\<close>, \<^verbatim>\<open>_pad1\<close>, \<^verbatim>\<open>_pad2\<close> are neither read nor written by any function of
  the header.
\<close>

record AttributeDescriptor =
  association :: int
  attribute_type :: int
  attribute_type_index :: int
  data_arity :: int
  data_type :: int

definition validate :: "AttributeDescriptor \<Rightarrow> error + unit" where
  "validate d =
     (if association d < 0 \<or> association d \<ge> assoc_invalid
        then Inl (runtime_error ''association out of range'')
      else if attribute_type d < 0 \<or> attribute_type d \<ge> attr_invalid
        then Inl (runtime_error ''attribute type out of range'')
      else if data_arity d \<le> 0
        then Inl (runtime_error ''data arity must be greater than zero'')
      else if data_type d < 0 \<or> data_type d \<ge> dt_invalid
        then Inl (runtime_error ''data type out of range'')
      else Inr ())"

text \<open>The static \<^verbatim>\<open>data_type_size(DataType)\<close>: the \<^verbatim>\<open>switch\<close>, case by case.\<close>

definition data_type_size :: "int \<Rightarrow> error + int" where
  "data_type_size dt =
     (if dt = dt_uint8 then Inr 1
      else if dt = dt_uint16 then Inr 2
      else if dt = dt_uint32 then Inr 4
      else if dt = dt_uint64 then Inr 8
      else if dt = dt_uint128 then Inr 16
      else if dt = dt_int8 then Inr 1
      else if dt = dt_int16 then Inr 2
      else if dt = dt_int32 then Inr 4
      else if dt = dt_int64 then Inr 8
      else if dt = dt_int128 then Inr 16
      else if dt = dt_float16 then Inr 2
      else if dt = dt_float32 then Inr 4
      else if dt = dt_float64 then Inr 8
      else if dt = dt_float128 then Inr 16
      else Inl (runtime_error ''invalid data type''))"

subsection \<open>Registries\<close>

text \<open>
  A \<^verbatim>\<open>std::map\<close> literal is an association list in key order; \<^verbatim>\<open>at\<close> raises
  \<^verbatim>\<open>std::out_of_range\<close> on a missing key. \<^verbatim>\<open>reverse_map\<close> walks the entries in key
  order and assigns \<^verbatim>\<open>r[kv.second] = kv.first\<close>.
\<close>

definition at :: "('k \<rightharpoonup> 'v) \<Rightarrow> 'k \<Rightarrow> error + 'v" where
  "at m k = (case m k of None \<Rightarrow> Inl out_of_range | Some v \<Rightarrow> Inr v)"

definition reverse_map :: "(int \<times> string) list \<Rightarrow> (string \<rightharpoonup> int)" where
  "reverse_map m = fold (\<lambda>kv r. r(snd kv \<mapsto> fst kv)) m Map.empty"

definition data_types_to_strings :: "(int \<times> string) list" where
  "data_types_to_strings =
     [(dt_uint8, ''uint8''), (dt_uint16, ''uint16''), (dt_uint32, ''uint32''),
      (dt_uint64, ''uint64''), (dt_uint128, ''uint128''),
      (dt_int8, ''int8''), (dt_int16, ''int16''), (dt_int32, ''int32''),
      (dt_int64, ''int64''), (dt_int128, ''int128''),
      (dt_float16, ''float16''), (dt_float32, ''float32''),
      (dt_float64, ''float64''), (dt_float128, ''float128''),
      (dt_invalid, ''invalid'')]"

definition data_types_from_strings :: "string \<rightharpoonup> int" where
  "data_types_from_strings = reverse_map data_types_to_strings"

definition associations_to_strings :: "(int \<times> string) list" where
  "associations_to_strings =
     [(assoc_vertex, ''vertex''), (assoc_face, ''face''), (assoc_corner, ''corner''),
      (assoc_edge, ''edge''), (assoc_object, ''object''), (assoc_none, ''none''),
      (assoc_invalid, ''invalid'')]"

definition associations_from_strings :: "string \<rightharpoonup> int" where
  "associations_from_strings = reverse_map associations_to_strings"

definition attribute_types_to_strings :: "(int \<times> string) list" where
  "attribute_types_to_strings =
     [(attr_custom, ''custom''), (attr_coordinate, ''coordinate''),
      (attr_index, ''index''), (attr_faceindex, ''faceindex''),
      (attr_facesize, ''facesize''), (attr_normal, ''normal''),
      (attr_binormal, ''binormal''), (attr_tangent, ''tangent''),
      (attr_materialid, ''materialid''), (attr_polygroup, ''polygroup''),
      (attr_uv, ''uv''), (attr_color, ''color''),
      (attr_smoothing, ''smoothing''), (attr_crease, ''crease''),
      (attr_hole, ''hole''), (attr_invisibility, ''invisibility''),
      (attr_selection, ''selection''), (attr_pervertex, ''pervertex''),
      (attr_invalid, ''invalid'')]"

definition attribute_types_from_strings :: "string \<rightharpoonup> int" where
  "attribute_types_from_strings = reverse_map attribute_types_to_strings"

definition data_type_to_string :: "int \<Rightarrow> error + string" where
  "data_type_to_string dt = at (map_of data_types_to_strings) dt"

definition data_type_from_string :: "string \<Rightarrow> error + int" where
  "data_type_from_string s = at data_types_from_strings s"

definition association_to_string :: "int \<Rightarrow> error + string" where
  "association_to_string assoc = at (map_of associations_to_strings) assoc"

definition association_from_string :: "string \<Rightarrow> error + int" where
  "association_from_string s = at associations_from_strings s"

definition attribute_type_to_string :: "int \<Rightarrow> error + string" where
  "attribute_type_to_string attr = at (map_of attribute_types_to_strings) attr"

definition attribute_type_from_string :: "string \<Rightarrow> error + int" where
  "attribute_type_from_string s = at attribute_types_from_strings s"

subsection \<open>Canonical strings\<close>

text \<open>
  \<^verbatim>\<open>operator<<\<close> on an \<^verbatim>\<open>int32_t\<close>: decimal digits, most significant first, a
  leading minus sign for a negative value.
\<close>

definition digit_char :: "nat \<Rightarrow> char" where
  "digit_char n = ''0123456789'' ! n"

fun ostream_nat :: "nat \<Rightarrow> string" where
  "ostream_nat n =
     (if n < 10 then [digit_char n] else ostream_nat (n div 10) @ [digit_char (n mod 10)])"

declare ostream_nat.simps [simp del]

definition ostream_int :: "int \<Rightarrow> string" where
  "ostream_int i = (if i < 0 then CHR ''-'' # ostream_nat (nat (- i)) else ostream_nat (nat i))"

text \<open>
  \<^verbatim>\<open>association_string\<close> and \<^verbatim>\<open>data_type_string\<close> look their own member up.
  \<^verbatim>\<open>attribute_type_string\<close> is written
  \<^verbatim>\<open>return attribute_type_to_string(data_type());\<close> in the source: it looks the
  data type's number up in the attribute type registry.
\<close>

definition association_string :: "AttributeDescriptor \<Rightarrow> error + string" where
  "association_string d = association_to_string (association d)"

definition data_type_string :: "AttributeDescriptor \<Rightarrow> error + string" where
  "data_type_string d = data_type_to_string (data_type d)"

definition attribute_type_string :: "AttributeDescriptor \<Rightarrow> error + string" where
  "attribute_type_string d = attribute_type_to_string (data_type d)"

text \<open>
  The body of \<^verbatim>\<open>to_string\<close> streams the six parts separated by colons into
  \<^verbatim>\<open>oss\<close>; \<open>oss_str\<close> is the value of \<^verbatim>\<open>oss.str()\<close> after that. Each of the three
  lookups may raise \<^verbatim>\<open>std::out_of_range\<close>, the same exception whichever comes first.
\<close>

definition oss_str :: "AttributeDescriptor \<Rightarrow> error + string" where
  "oss_str d =
     and_then (association_string d) (\<lambda>a.
     and_then (attribute_type_string d) (\<lambda>t.
     and_then (data_type_string d) (\<lambda>dt.
       Inr (''g3d'' @ '':'' @ a @ '':'' @ t @ '':'' @ ostream_int (attribute_type_index d)
            @ '':'' @ dt @ '':'' @ ostream_int (data_arity d)))))"

text \<open>
  \<^verbatim>\<open>return oss.str();\<close> returns the reference to the temporary, destroyed at the
  return.
\<close>

definition to_string :: "AttributeDescriptor \<Rightarrow> error + string_ref" where
  "to_string d = and_then (oss_str d) (\<lambda>text. Inr (destroyed_temporary text))"

text \<open>
  \<^verbatim>\<open>auto tmp = desc.to_string();\<close> and \<^verbatim>\<open>auto name = desc.to_string();\<close>: the
  caller's string is copied from the returned reference.
\<close>

definition to_string_copy :: "reading \<Rightarrow> AttributeDescriptor \<Rightarrow> error + string" where
  "to_string_copy rd d = and_then (to_string d) (copy_string rd)"

text \<open>
  \<^verbatim>\<open>getline(ss, item, delim)\<close> fails when the stream is already at its end;
  otherwise it reads up to the delimiter, which it consumes, or up to the end.
  \<^verbatim>\<open>split\<close> collects the items until \<^verbatim>\<open>getline\<close> fails.
\<close>

definition getline :: "string \<Rightarrow> char \<Rightarrow> (string \<times> string) option" where
  "getline ss delim =
     (if ss = [] then None
      else Some (takeWhile (\<lambda>c. c \<noteq> delim) ss, drop 1 (dropWhile (\<lambda>c. c \<noteq> delim) ss)))"

function split_str :: "string \<Rightarrow> char \<Rightarrow> string list" where
  "split_str s delim =
     (case getline s delim of None \<Rightarrow> [] | Some (item, rest) \<Rightarrow> item # split_str rest delim)"
  by pat_completeness auto
termination
proof (relation "measure (\<lambda>(s, delim). length s)")
  show "wf (measure (\<lambda>(s, delim). length s))" by simp
next
  fix s :: string and delim :: char and x2 :: "string \<times> string" and item rest :: string
  assume g: "getline s delim = Some x2" and x: "(item, rest) = x2"
  from g x have ne: "s \<noteq> []" and r: "rest = drop 1 (dropWhile (\<lambda>c. c \<noteq> delim) s)"
    by (auto simp: getline_def split: if_splits)
  have "length (dropWhile (\<lambda>c. c \<noteq> delim) s) \<le> length s"
    by (rule length_dropWhile_le)
  moreover have "dropWhile (\<lambda>c. c \<noteq> delim) s = [] \<or> length (drop 1 (dropWhile (\<lambda>c. c \<noteq> delim) s)) < length (dropWhile (\<lambda>c. c \<noteq> delim) s)"
    by (cases "dropWhile (\<lambda>c. c \<noteq> delim) s") auto
  ultimately have "length rest < length s" using ne r by (cases s) auto
  then show "((rest, delim), (s, delim)) \<in> measure (\<lambda>(s, delim). length s)" by simp
qed

declare split_str.simps [simp del]

text \<open>
  \<^verbatim>\<open>stoi(str)\<close> (base 10): skips leading white space, takes an optional sign and
  the longest run of decimal digits, and ignores what follows. No digit:
  \<^verbatim>\<open>std::invalid_argument\<close>; a value outside \<^verbatim>\<open>int\<close>: \<^verbatim>\<open>std::out_of_range\<close>.
\<close>

definition isspace :: "char \<Rightarrow> bool" where
  "isspace c = (c \<in> set [CHR '' '', CHR 0x09, CHR 0x0A, CHR 0x0B, CHR 0x0C, CHR 0x0D])"

definition isdigit :: "char \<Rightarrow> bool" where
  "isdigit c = (48 \<le> (of_char c :: nat) \<and> (of_char c :: nat) \<le> 57)"

definition digits_value :: "string \<Rightarrow> int" where
  "digits_value ds = foldl (\<lambda>acc c. 10 * acc + (int (of_char c) - 48)) 0 ds"

definition stoi :: "string \<Rightarrow> error + int" where
  "stoi str =
     (let s1 = dropWhile isspace str;
          neg = (case s1 of c # _ \<Rightarrow> c = CHR ''-'' | [] \<Rightarrow> False);
          s2 = (case s1 of c # r \<Rightarrow> if c = CHR ''-'' \<or> c = CHR ''+'' then r else s1 | [] \<Rightarrow> s1);
          ds = takeWhile isdigit s2;
          v = (if neg then - digits_value ds else digits_value ds)
      in if ds = [] then Inl invalid_argument
         else if v < - (2 ^ 31) \<or> v > 2 ^ 31 - 1 then Inl out_of_range
         else Inr v)"

text \<open>
  \<^verbatim>\<open>from_string\<close>, statement by statement: each token is consumed by
  \<^verbatim>\<open>*token++\<close> after the check \<^verbatim>\<open>token == end\<close> (\<open>next_token\<close>), the lookup
  or conversion of a token may raise before the next check, \<^verbatim>\<open>validate\<close> runs
  before the check for surplus tokens, and the last check copies the result of
  \<^verbatim>\<open>to_string\<close> for the parsed descriptor and compares the copy with the input.
\<close>

definition insufficient :: error where
  "insufficient = runtime_error ''Insufficient tokens''"

definition next_token :: "string list \<Rightarrow> (string \<Rightarrow> string list \<Rightarrow> error + 'a) \<Rightarrow> error + 'a" where
  "next_token tokens k = (case tokens of [] \<Rightarrow> Inl insufficient | t # ts \<Rightarrow> k t ts)"

definition from_string :: "reading \<Rightarrow> string \<Rightarrow> error + AttributeDescriptor" where
  "from_string rd s =
     next_token (split_str s CHR '':'') (\<lambda>t0 ts0.
     if t0 \<noteq> ''g3d'' then Inl (runtime_error ''Expected g3d'') else
     next_token ts0 (\<lambda>t1 ts1. and_then (association_from_string t1) (\<lambda>a.
     next_token ts1 (\<lambda>t2 ts2. and_then (attribute_type_from_string t2) (\<lambda>t.
     next_token ts2 (\<lambda>t3 ts3. and_then (stoi t3) (\<lambda>i.
     next_token ts3 (\<lambda>t4 ts4. and_then (data_type_from_string t4) (\<lambda>dt.
     next_token ts4 (\<lambda>t5 ts5. and_then (stoi t5) (\<lambda>n.
     let desc = \<lparr> association = a, attribute_type = t, attribute_type_index = i,
                   data_arity = n, data_type = dt \<rparr> in
     and_then (validate desc) (\<lambda>_.
     if ts5 \<noteq> [] then Inl (runtime_error ''Too many tokens'') else
     and_then (to_string_copy rd desc) (\<lambda>tmp.
     if tmp \<noteq> s
       then Inl (runtime_error ''Internal error: parsed attribute descriptor does not match generated attribute descriptor'')
     else Inr desc)))))))))))))"

subsection \<open>struct Attribute\<close>

text \<open>
  A descriptor and the two ends of a byte range. A pointer is its address, the null
  pointer is \<open>0\<close>; \<^verbatim>\<open>_end - _begin\<close> converted to \<^verbatim>\<open>size_t\<close> is the difference
  of the addresses modulo \<open>2 ^ 64\<close>.
\<close>

type_synonym size_t = "64 word"
type_synonym pointer = "64 word"

record Attribute =
  descriptor :: AttributeDescriptor
  a_begin :: pointer
  a_end :: pointer

definition byte_size :: "Attribute \<Rightarrow> size_t" where
  "byte_size a = a_end a - a_begin a"

text \<open>
  \<^verbatim>\<open>descriptor.data_type_size() * descriptor.data_arity()\<close> multiplies two
  \<^verbatim>\<open>int32_t\<close>; a product outside \<^verbatim>\<open>int32_t\<close> is a signed overflow. The product is
  then converted to \<^verbatim>\<open>size_t\<close>, a negative one wrapping around.
\<close>

definition data_element_size :: "Attribute \<Rightarrow> error + size_t" where
  "data_element_size a =
     and_then (data_type_size (data_type (descriptor a))) (\<lambda>sz.
     let p = sz * data_arity (descriptor a) in
     if p < - (2 ^ 31) \<or> p > 2 ^ 31 - 1 then Inl undefined_behaviour
     else Inr (word_of_int p))"

definition num_elements :: "Attribute \<Rightarrow> error + size_t" where
  "num_elements a =
     and_then (data_element_size a) (\<lambda>k.
     if k = 0 then Inl undefined_behaviour else Inr (byte_size a div k))"

definition Attribute_ctor :: "AttributeDescriptor \<Rightarrow> pointer \<Rightarrow> pointer \<Rightarrow> error + Attribute" where
  "Attribute_ctor desc begin_p end_p =
     (let a = \<lparr> descriptor = desc, a_begin = begin_p, a_end = end_p \<rparr> in
      if begin_p = 0 \<or> end_p = 0 then Inl (runtime_error ''Null parameters'')
      else and_then (data_element_size a) (\<lambda>k.
        if k = 0 then Inl undefined_behaviour
        else if byte_size a mod k \<noteq> 0
          then Inl (runtime_error ''Data buffer is not the correct alignment'')
        else Inr a))"

subsection \<open>Attribute builders\<close>

text \<open>
  The two builders behind \<^verbatim>\<open>AttributeBuilderBase\<close>. \<open>Ref\<close> holds an attribute
  over external memory. \<open>Own\<close> holds its \<^verbatim>\<open>vector<T> buffer\<close>, as bytes, and an
  attribute over it.
\<close>

type_synonym byte = "8 word"

datatype AttributeBuilder =
    Ref Attribute
  | Own "byte list" Attribute

fun GetAttribute :: "AttributeBuilder \<Rightarrow> Attribute" where
  "GetAttribute (Ref attribute) = attribute"
| "GetAttribute (Own buffer attribute) = attribute"

definition AttributeBuilderRef :: "AttributeDescriptor \<Rightarrow> pointer \<Rightarrow> pointer \<Rightarrow> error + AttributeBuilder" where
  "AttributeBuilderRef descriptor_p begin_p end_p =
     and_then (Attribute_ctor descriptor_p begin_p end_p) (\<lambda>attribute. Inr (Ref attribute))"

text \<open>
  \<^verbatim>\<open>AttributeBuilderOwn(descriptor, size, data)\<close>. The member initialiser
  \<^verbatim>\<open>vector(size)\<close> names no member; it is read as \<^verbatim>\<open>buffer(size)\<close>, the only
  vector of the class: \<open>size\<close> value-initialised elements of \<open>sizeof_T\<close> bytes each.
  \<open>alloc\<close> is the address \<^verbatim>\<open>buffer.data()\<close>, chosen by the allocator;
  \<^verbatim>\<open>buffer.data() + size\<close> advances it by \<open>size\<close> elements. \<open>data\<close> is \<open>None\<close>
  for \<^verbatim>\<open>nullptr\<close> and otherwise the bytes of the array it points to.

  \<^verbatim>\<open>memcpy_s(begin(), size, data(), size)\<close> (with \<^verbatim>\<open>data()\<close> read as \<^verbatim>\<open>data\<close>)
  copies \<open>size\<close> bytes to the start of the buffer. The length of the source is not
  an argument of the constructor and is not examined; reading more bytes than the
  source has is undefined. A failure of the allocation is not modelled.
\<close>

definition memcpy_s :: "byte list \<Rightarrow> size_t \<Rightarrow> byte list \<Rightarrow> size_t \<Rightarrow> error + byte list" where
  "memcpy_s dest destsz src count =
     (if unat count > length src \<or> unat count > length dest \<or> count > destsz
        then Inl undefined_behaviour
      else Inr (take (unat count) src @ drop (unat count) dest))"

definition AttributeBuilderOwn ::
  "nat \<Rightarrow> pointer \<Rightarrow> AttributeDescriptor \<Rightarrow> size_t \<Rightarrow> byte list option \<Rightarrow> error + AttributeBuilder" where
  "AttributeBuilderOwn sizeof_T alloc descriptor_p size' data =
     (let buffer = replicate (unat size' * sizeof_T) (0::byte) in
      and_then (Attribute_ctor descriptor_p alloc (alloc + size' * of_nat sizeof_T)) (\<lambda>attribute.
      case data of
        None \<Rightarrow> Inr (Own buffer attribute)
      | Some src \<Rightarrow>
          and_then (memcpy_s buffer size' src size') (\<lambda>buffer'. Inr (Own buffer' attribute))))"

subsection \<open>struct G3d\<close>

text \<open>
  \<^verbatim>\<open>map<string, AttributeBuilderBase*> builders\<close>, each builder owned by the map.
  The four count members are declared and never assigned or read; the constructor's
  body is empty.
\<close>

record G3d =
  builders :: "string \<rightharpoonup> AttributeBuilder"

definition G3d_ctor :: "int \<Rightarrow> int \<Rightarrow> int \<Rightarrow> int \<Rightarrow> G3d" where
  "G3d_ctor vertex_count face_count corner_count polygon_size = \<lparr> builders = Map.empty \<rparr>"

text \<open>
  \<^verbatim>\<open>add_attribute(const AttributeDescriptor&, size_t size, T* data)\<close>. An exception
  leaves the collection as it was, so the result is the outcome together with the
  collection after the call. Four lines of the source name things that do not
  exist and are read as follows:
  \<^item> \<^verbatim>\<open>builder.end()\<close> is \<^verbatim>\<open>builders.end()\<close>;
  \<^item> \<^verbatim>\<open>new AttributeBuilderRef<T>(desc, size, data)\<close> is the constructor
    \<^verbatim>\<open>(descriptor, begin, end)\<close> over the \<open>size'\<close> elements at \<open>data\<close>;
  \<^item> \<^verbatim>\<open>AttributeBuilderVector<T>\<close> is \<^verbatim>\<open>AttributeBuilderOwn<T>\<close>, the one builder
    with a vector; \<open>data\<close> is null on this branch;
  \<^item> \<^verbatim>\<open>builders.push_back(r)\<close> is the insertion of \<open>r\<close> under \<open>name\<close>, the key
    the lookup two lines above uses.
\<close>

definition add_attribute ::
  "reading \<Rightarrow> nat \<Rightarrow> pointer \<Rightarrow> AttributeDescriptor \<Rightarrow> size_t \<Rightarrow> pointer \<Rightarrow> G3d \<Rightarrow> (error + AttributeBuilder) \<times> G3d" where
  "add_attribute rd sizeof_T alloc desc size' data g =
     (case to_string_copy rd desc of
        Inl e \<Rightarrow> (Inl e, g)
      | Inr name \<Rightarrow>
          if builders g name \<noteq> None
            then (Inl (runtime_error ''Attribute descriptor already exists''), g)
          else
            (case (if data \<noteq> 0
                     then AttributeBuilderRef desc data (data + size' * of_nat sizeof_T)
                   else AttributeBuilderOwn sizeof_T alloc desc size' None) of
               Inl e \<Rightarrow> (Inl e, g)
             | Inr r \<Rightarrow> (Inr r, g\<lparr> builders := (builders g)(name \<mapsto> r) \<rparr>)))"

text \<open>The overload that takes the descriptor as a string parses it first.\<close>

definition add_attribute_str ::
  "reading \<Rightarrow> nat \<Rightarrow> pointer \<Rightarrow> string \<Rightarrow> size_t \<Rightarrow> pointer \<Rightarrow> G3d \<Rightarrow> (error + AttributeBuilder) \<times> G3d" where
  "add_attribute_str rd sizeof_T alloc desc size' data g =
     (case from_string rd desc of
        Inl e \<Rightarrow> (Inl e, g)
      | Inr d \<Rightarrow> add_attribute rd sizeof_T alloc d size' data g)"

text \<open>
  The convenience functions take \<^verbatim>\<open>int size\<close>, converted to \<^verbatim>\<open>size_t\<close> at the
  call of \<^verbatim>\<open>add_attribute\<close>; \<^verbatim>\<open>T\<close> is deduced from the data pointer
  (\<^verbatim>\<open>float\<close> and \<^verbatim>\<open>int\<close>, four bytes each).
\<close>

definition int_to_size_t :: "int \<Rightarrow> size_t" where
  "int_to_size_t i = word_of_int i"

definition size_t_to_int :: "size_t \<Rightarrow> int" where
  "size_t_to_int n = sint (ucast n :: 32 word)"

definition add_vertices :: "reading \<Rightarrow> pointer \<Rightarrow> int \<Rightarrow> pointer \<Rightarrow> G3d \<Rightarrow> (error + AttributeBuilder) \<times> G3d" where
  "add_vertices rd alloc size' data g =
     add_attribute_str rd 4 alloc ''g3d:vertex:coordinate:0:float32:3'' (int_to_size_t size') data g"

definition add_indexes :: "reading \<Rightarrow> pointer \<Rightarrow> int \<Rightarrow> pointer \<Rightarrow> G3d \<Rightarrow> (error + AttributeBuilder) \<times> G3d" where
  "add_indexes rd alloc size' data g =
     add_attribute_str rd 4 alloc ''g3d:corner:index:0:int32:1'' (int_to_size_t size') data g"

definition add_uvs :: "reading \<Rightarrow> pointer \<Rightarrow> int \<Rightarrow> pointer \<Rightarrow> G3d \<Rightarrow> (error + AttributeBuilder) \<times> G3d" where
  "add_uvs rd alloc size' data g =
     add_attribute_str rd 4 alloc ''g3d:vertex:uv:0:float32:2'' (int_to_size_t size') data g"

definition add_uv2s :: "reading \<Rightarrow> pointer \<Rightarrow> int \<Rightarrow> pointer \<Rightarrow> G3d \<Rightarrow> (error + AttributeBuilder) \<times> G3d" where
  "add_uv2s rd alloc size' data g =
     add_attribute_str rd 4 alloc ''g3d:vertex:uv:1:float32:2'' (int_to_size_t size') data g"

definition add_vertex_normals :: "reading \<Rightarrow> pointer \<Rightarrow> int \<Rightarrow> pointer \<Rightarrow> G3d \<Rightarrow> (error + AttributeBuilder) \<times> G3d" where
  "add_vertex_normals rd alloc size' data g =
     add_attribute_str rd 4 alloc ''g3d:vertex:uv:0:float32:3'' (int_to_size_t size') data g"

definition add_map_channel_data ::
  "reading \<Rightarrow> pointer \<Rightarrow> int \<Rightarrow> int \<Rightarrow> pointer \<Rightarrow> G3d \<Rightarrow> (error + AttributeBuilder) \<times> G3d" where
  "add_map_channel_data rd alloc id' size' data g =
     (case from_string rd ''g3d:none:map_channel_data:0:float32:3'' of
        Inl e \<Rightarrow> (Inl e, g)
      | Inr desc \<Rightarrow>
          add_attribute rd 4 alloc (desc\<lparr> attribute_type_index := id' \<rparr>) (int_to_size_t size') data g)"

definition add_map_channel_index ::
  "reading \<Rightarrow> pointer \<Rightarrow> int \<Rightarrow> int \<Rightarrow> pointer \<Rightarrow> G3d \<Rightarrow> (error + AttributeBuilder) \<times> G3d" where
  "add_map_channel_index rd alloc id' size' data g =
     (case from_string rd ''g3d:corner:map_channel_index:0:int32:1'' of
        Inl e \<Rightarrow> (Inl e, g)
      | Inr desc \<Rightarrow>
          add_attribute rd 4 alloc (desc\<lparr> attribute_type_index := id' \<rparr>) (int_to_size_t size') data g)"

text \<open>
  \<^verbatim>\<open>add_map_channel\<close> makes the two calls in turn; \<^verbatim>\<open>num_texture_vertices * 3\<close>
  and \<^verbatim>\<open>num_texture_faces * 3\<close> are \<^verbatim>\<open>size_t\<close> products narrowed to \<^verbatim>\<open>int\<close>.
  An exception of the first call ends the function.
\<close>

definition add_map_channel ::
  "reading \<Rightarrow> pointer \<Rightarrow> pointer \<Rightarrow> int \<Rightarrow> pointer \<Rightarrow> size_t \<Rightarrow> pointer \<Rightarrow> size_t \<Rightarrow> G3d \<Rightarrow> (error + unit) \<times> G3d" where
  "add_map_channel rd alloc1 alloc2 id' texture_vertices num_texture_vertices
       texture_indices num_texture_faces g =
     (case add_map_channel_data rd alloc1 id' (size_t_to_int (num_texture_vertices * 3))
             texture_vertices g of
        (Inl e, g') \<Rightarrow> (Inl e, g')
      | (Inr _, g') \<Rightarrow>
          (case add_map_channel_index rd alloc2 id' (size_t_to_int (num_texture_faces * 3))
                  texture_indices g' of
             (Inl e, g'') \<Rightarrow> (Inl e, g'')
           | (Inr _, g'') \<Rightarrow> (Inr (), g'')))"

subsection \<open>Vocabulary of the specification\<close>

text \<open>
  The header raises \<^verbatim>\<open>runtime_error\<close> throughout; the specification's error kinds
  are told apart by the message. A \<open>RangeError\<close> is one of the three "out of range"
  messages of \<^verbatim>\<open>validate\<close>, an \<open>ArityError\<close> is its arity message.
\<close>

definition RangeError :: "error \<Rightarrow> bool" where
  "RangeError e = (e = runtime_error ''association out of range'' \<or>
                   e = runtime_error ''attribute type out of range'' \<or>
                   e = runtime_error ''data type out of range'')"

definition ArityError :: "error \<Rightarrow> bool" where
  "ArityError e = (e = runtime_error ''data arity must be greater than zero'')"

definition out_of_span :: "int \<Rightarrow> int \<Rightarrow> bool" where
  "out_of_span v sentinel = (v < 0 \<or> v \<ge> sentinel)"

text \<open>The exception of the last check of \<^verbatim>\<open>from_string\<close>.\<close>

definition internal_error :: error where
  "internal_error = runtime_error ''Internal error: parsed attribute descriptor does not match generated attribute descriptor''"

text \<open>The builder that either branch of \<^verbatim>\<open>add_attribute\<close> allocates.\<close>

definition new_builder ::
  "nat \<Rightarrow> pointer \<Rightarrow> AttributeDescriptor \<Rightarrow> size_t \<Rightarrow> pointer \<Rightarrow> error + AttributeBuilder" where
  "new_builder sizeof_T alloc desc size' data =
     (if data \<noteq> 0 then AttributeBuilderRef desc data (data + size' * of_nat sizeof_T)
      else AttributeBuilderOwn sizeof_T alloc desc size' None)"

text \<open>
  The canonical string in the words of the header's opening comment and of the
  specification, \<open>g3d:<association>:<attribute_type>:<attribute_type_index>:<data_type>:<data_arity>\<close>,
  each part the name or number of its own member; to be compared with \<open>oss_str\<close>.
\<close>

definition canonical_string :: "AttributeDescriptor \<Rightarrow> error + string" where
  "canonical_string d =
     and_then (association_to_string (association d)) (\<lambda>a.
     and_then (attribute_type_to_string (attribute_type d)) (\<lambda>t.
     and_then (data_type_to_string (data_type d)) (\<lambda>dt.
       Inr (''g3d'' @ '':'' @ a @ '':'' @ t @ '':'' @ ostream_int (attribute_type_index d)
            @ '':'' @ dt @ '':'' @ ostream_int (data_arity d)))))"

text \<open>The expression \<^verbatim>\<open>AttributeDescriptor::from_string(d.to_string())\<close>.\<close>

definition parse_own_string :: "reading \<Rightarrow> AttributeDescriptor \<Rightarrow> error + AttributeDescriptor" where
  "parse_own_string rd d = and_then (to_string_copy rd d) (from_string rd)"

text \<open>The descriptors of the specification's scenarios.\<close>

definition vertex_coordinate :: AttributeDescriptor where
  "vertex_coordinate = \<lparr> association = assoc_vertex, attribute_type = attr_coordinate,
      attribute_type_index = 0, data_arity = 3, data_type = dt_float32 \<rparr>"

definition vertex_uv :: "int \<Rightarrow> AttributeDescriptor" where
  "vertex_uv i = \<lparr> association = assoc_vertex, attribute_type = attr_uv,
      attribute_type_index = i, data_arity = 2, data_type = dt_float32 \<rparr>"

definition vertex_color :: AttributeDescriptor where
  "vertex_color = \<lparr> association = assoc_vertex, attribute_type = attr_color,
      attribute_type_index = 0, data_arity = 2, data_type = dt_float32 \<rparr>"

definition big_arity :: AttributeDescriptor where
  "big_arity = \<lparr> association = assoc_vertex, attribute_type = attr_coordinate,
      attribute_type_index = 0, data_arity = 2 ^ 30, data_type = dt_float32 \<rparr>"

definition uint32_scalar :: AttributeDescriptor where
  "uint32_scalar = \<lparr> association = assoc_vertex, attribute_type = attr_custom,
      attribute_type_index = 0, data_arity = 1, data_type = dt_uint32 \<rparr>"

text \<open>The collection after the first insertion of the uniqueness scenario.\<close>

definition uv0_builder :: AttributeBuilder where
  "uv0_builder = Ref \<lparr> descriptor = vertex_uv 0, a_begin = 8192, a_end = 8208 \<rparr>"

definition uv0_added :: G3d where
  "uv0_added = \<lparr> builders = [''g3d:vertex:color:0:float32:2'' \<mapsto> uv0_builder] \<rparr>"

text \<open>Two sources for the owning builder, of 12 and of 16 bytes.\<close>

definition source12 :: "byte list" where
  "source12 = [1, 2, 3, 4, 5, 6, 7, 8, 9, 10, 11, 12]"

definition source16 :: "byte list" where
  "source16 = [1, 2, 3, 4, 5, 6, 7, 8, 9, 10, 11, 12, 13, 14, 15, 16]"

subsection \<open>Container framing\<close>

text \<open>
  Modelled from the spec: the header contains no writer and no reader of the
  container; only its opening comment describes the arrays. The definitions of
  this subsection follow sections 3, 4.6 and 6 of the specification, at the level
  of the ordered sequence of byte arrays (the byte framing of that sequence belongs
  to the external BFAST format). The descriptor record, \<^verbatim>\<open>validate\<close> and
  \<^verbatim>\<open>data_type_size\<close> are those of the header.
\<close>

text \<open>
  Modelled from the spec: an attribute of the collection as the container stores
  it, its descriptor with its data array and its index array; the collection is
  the sequence of its attributes in key order.
\<close>

record stored_attribute =
  sa_descriptor :: AttributeDescriptor
  sa_data :: "byte list"
  sa_index :: "byte list"

text \<open>Modelled from the spec: the error kinds of the read contract.\<close>

datatype container_error = ArrayCountMismatchError | AlignmentError | DescriptorError error

text \<open>Modelled from the spec: a value that a 4-byte signed field can hold.\<close>

definition int32 :: "int \<Rightarrow> bool" where
  "int32 i = (- (2 ^ 31) \<le> i \<and> i < 2 ^ 31)"

text \<open>Modelled from the spec: a descriptor whose five members are such values.\<close>

definition int32_fields :: "AttributeDescriptor \<Rightarrow> bool" where
  "int32_fields d = (int32 (association d) \<and> int32 (attribute_type d) \<and>
     int32 (attribute_type_index d) \<and> int32 (data_arity d) \<and> int32 (data_type d))"

text \<open>
  Modelled from the spec: a 4-byte signed integer, little-endian, two's
  complement.
\<close>

definition encode_int32 :: "int \<Rightarrow> byte list" where
  "encode_int32 i =
     [word_of_int i, word_of_int (i div 2 ^ 8), word_of_int (i div 2 ^ 16), word_of_int (i div 2 ^ 24)]"

definition decode_int32 :: "byte list \<Rightarrow> int" where
  "decode_int32 bs =
     (let u = uint (bs ! 0) + 2 ^ 8 * uint (bs ! 1) + 2 ^ 16 * uint (bs ! 2) + 2 ^ 24 * uint (bs ! 3)
      in if u < 2 ^ 31 then u else u - 2 ^ 32)"

text \<open>
  Modelled from the spec: the 32-byte descriptor record, five 4-byte fields in the
  order association, attribute type, attribute type index, data arity, data type,
  then 12 reserved bytes, zero on write and ignored on read.
\<close>

definition encode_descriptor :: "AttributeDescriptor \<Rightarrow> byte list" where
  "encode_descriptor d =
     encode_int32 (association d) @ encode_int32 (attribute_type d) @
     encode_int32 (attribute_type_index d) @ encode_int32 (data_arity d) @
     encode_int32 (data_type d) @ replicate 12 0"

definition int32_at :: "byte list \<Rightarrow> nat \<Rightarrow> int" where
  "int32_at r k = decode_int32 (take 4 (drop (4 * k) r))"

definition decode_descriptor :: "byte list \<Rightarrow> AttributeDescriptor" where
  "decode_descriptor r =
     \<lparr> association = int32_at r 0, attribute_type = int32_at r 1,
       attribute_type_index = int32_at r 2, data_arity = int32_at r 3,
       data_type = int32_at r 4 \<rparr>"

text \<open>Modelled from the spec: array 1 sliced into its 32-byte records.\<close>

definition records_of :: "byte list \<Rightarrow> byte list list" where
  "records_of table = map (\<lambda>i. take 32 (drop (32 * i) table)) [0 ..< length table div 32]"

text \<open>
  Modelled from the spec: the write contract. Array 0 is the metadata, array 1 the
  concatenation of the descriptors in key order, then for each attribute in the
  same order its data array followed by its index array.
\<close>

definition write_container :: "byte list \<Rightarrow> stored_attribute list \<Rightarrow> byte list list" where
  "write_container metadata coll =
     metadata # concat (map (\<lambda>a. encode_descriptor (sa_descriptor a)) coll)
       # concat (map (\<lambda>a. [sa_data a, sa_index a]) coll)"

text \<open>
  Modelled from the spec: a data array is consistent with its descriptor when its
  length is a multiple of \<open>data_type_size(data_type) * data_arity\<close>.
\<close>

definition data_array_aligned :: "AttributeDescriptor \<Rightarrow> byte list \<Rightarrow> bool" where
  "data_array_aligned d data =
     (case data_type_size (data_type d) of
        Inl e \<Rightarrow> False
      | Inr sz \<Rightarrow> 0 < sz * data_arity d \<and> int (length data) mod (sz * data_arity d) = 0)"

text \<open>
  Modelled from the spec: each record of the table is validated by the header's
  \<^verbatim>\<open>validate\<close>; the first failure ends the read.
\<close>

fun validate_all :: "AttributeDescriptor list \<Rightarrow> error + unit" where
  "validate_all [] = Inr ()"
| "validate_all (d # ds) = and_then (validate d) (\<lambda>_. validate_all ds)"

text \<open>
  Modelled from the spec: the read contract. Array 0 is the metadata; array 1 is
  sliced into records, each decoded and validated; attribute \<open>i\<close> has the data
  array \<open>2 + 2 * i\<close> and the index array \<open>2 + 2 * i + 1\<close>; the array count must be
  \<open>2 + 2 * N\<close> for the \<open>N\<close> descriptors found, and every data array must be
  consistent with its descriptor.
\<close>

definition read_container :: "byte list list \<Rightarrow> container_error + byte list \<times> stored_attribute list" where
  "read_container arrays =
     (case arrays of
        metadata # table # rest \<Rightarrow>
          (let descs = map decode_descriptor (records_of table);
               attrs = map (\<lambda>i. \<lparr> sa_descriptor = descs ! i, sa_data = arrays ! (2 + 2 * i),
                                   sa_index = arrays ! (2 + 2 * i + 1) \<rparr>) [0 ..< length descs]
           in case validate_all descs of
                Inl e \<Rightarrow> Inl (DescriptorError e)
              | Inr u \<Rightarrow>
                  if length arrays \<noteq> 2 + 2 * length descs then Inl ArrayCountMismatchError
                  else if list_all (\<lambda>a. data_array_aligned (sa_descriptor a) (sa_data a)) attrs
                    then Inr (metadata, attrs)
                  else Inl AlignmentError)
      | _ \<Rightarrow> Inl ArrayCountMismatchError)"

text \<open>
  Modelled from the spec: an attribute that a collection can hold, with a validated
  descriptor whose members are 4-byte values and a data array consistent with it.
\<close>

definition well_formed :: "stored_attribute \<Rightarrow> bool" where
  "well_formed a = (validate (sa_descriptor a) = Inr () \<and> int32_fields (sa_descriptor a) \<and>
     data_array_aligned (sa_descriptor a) (sa_data a))"

text \<open>
  The container scenario of the specification: 4 vertices of 3 float32 values and
  6 indices of one int32 value, each without an index array, and a metadata text.
\<close>

definition corner_index :: AttributeDescriptor where
  "corner_index = \<lparr> association = assoc_corner, attribute_type = attr_index,
      attribute_type_index = 0, data_arity = 1, data_type = dt_int32 \<rparr>"

definition vertex_bytes :: "byte list" where
  "vertex_bytes = map of_nat [0 ..< 48]"

definition index_bytes :: "byte list" where
  "index_bytes = map of_nat [100 ..< 124]"

definition scenario_metadata :: "byte list" where
  "scenario_metadata = [0x7B, 0x7D]"

definition scenario :: "stored_attribute list" where
  "scenario =
     [\<lparr> sa_descriptor = vertex_coordinate, sa_data = vertex_bytes, sa_index = [] \<rparr>,
      \<lparr> sa_descriptor = corner_index, sa_data = index_bytes, sa_index = [] \<rparr>]"

section \<open>Properties\<close>

subsection \<open>Facts about the enumerations and registries\<close>

lemmas DataType_defs =
  dt_uint8_def dt_uint16_def dt_uint32_def dt_uint64_def dt_uint128_def
  dt_int8_def dt_int16_def dt_int32_def dt_int64_def dt_int128_def
  dt_float16_def dt_float32_def dt_float64_def dt_float128_def dt_invalid_def

lemmas Association_defs =
  assoc_vertex_def assoc_face_def assoc_corner_def assoc_edge_def
  assoc_object_def assoc_none_def assoc_invalid_def

lemmas AttributeType_defs =
  attr_custom_def attr_coordinate_def attr_index_def attr_faceindex_def
  attr_facesize_def attr_normal_def attr_binormal_def attr_tangent_def
  attr_materialid_def attr_polygroup_def attr_uv_def attr_color_def
  attr_smoothing_def attr_crease_def attr_hole_def attr_invisibility_def
  attr_selection_def attr_pervertex_def attr_mapchannel_data_def
  attr_mapchannel_index_def attr_invalid_def

lemmas registry_defs =
  at_def reverse_map_def
  data_types_to_strings_def data_types_from_strings_def
  associations_to_strings_def associations_from_strings_def
  attribute_types_to_strings_def attribute_types_from_strings_def
  data_type_to_string_def data_type_from_string_def
  association_to_string_def association_from_string_def
  attribute_type_to_string_def attribute_type_from_string_def
  DataType_defs Association_defs AttributeType_defs

lemmas string_defs =
  oss_str_def and_then_def association_string_def attribute_type_string_def data_type_string_def

text \<open>
  What the caller's copy of the result of \<^verbatim>\<open>to_string\<close> is under the two
  readings: the text of the stream, or nothing defined.
\<close>

lemma to_string_copy_by_value [simp]: "to_string_copy by_value d = oss_str d"
  by (cases "oss_str d") (simp_all add: to_string_copy_def to_string_def copy_string_def and_then_def)

lemma to_string_copy_as_written:
  "to_string_copy as_written d =
     (case oss_str d of Inl e \<Rightarrow> Inl e | Inr text \<Rightarrow> Inl undefined_behaviour)"
  by (cases "oss_str d") (simp_all add: to_string_copy_def to_string_def copy_string_def and_then_def)

lemma to_string_copy_as_written_never: "to_string_copy as_written d \<noteq> Inr text"
  by (simp add: to_string_copy_as_written split: sum.splits)

text \<open>
  Every entry of the data type and association registries is found in both
  directions, and so is every entry of the attribute type registry.
\<close>

lemma data_types_bidirectional:
  "\<forall>(v, s) \<in> set data_types_to_strings.
     data_type_to_string v = Inr s \<and> data_type_from_string s = Inr v"
  by (simp add: registry_defs)

lemma associations_bidirectional:
  "\<forall>(v, s) \<in> set associations_to_strings.
     association_to_string v = Inr s \<and> association_from_string s = Inr v"
  by (simp add: registry_defs)

lemma attribute_types_bidirectional:
  "\<forall>(v, s) \<in> set attribute_types_to_strings.
     attribute_type_to_string v = Inr s \<and> attribute_type_from_string s = Inr v"
  by (simp add: registry_defs)

text \<open>A name is in a reversed registry exactly when some entry carries it.\<close>

lemma dom_fold_reverse:
  "dom (fold (\<lambda>kv r. r(snd kv \<mapsto> fst kv)) m r0) = dom r0 \<union> snd ` set m"
  by (induction m arbitrary: r0) auto

lemma dom_reverse_map: "dom (reverse_map m) = snd ` set m"
  by (simp add: reverse_map_def dom_fold_reverse)

lemma unknown_name_out_of_range:
  "s \<notin> snd ` set m \<Longrightarrow> at (reverse_map m) s = Inl out_of_range"
  using dom_reverse_map [of m] by (auto simp: at_def domIff split: option.splits)

text \<open>C2: the size table of \<^verbatim>\<open>data_type_size\<close>, and its failure on \<^verbatim>\<open>dt_invalid\<close>.\<close>

theorem data_type_size_table:
  "data_type_size dt_uint8 = Inr 1 \<and> data_type_size dt_uint16 = Inr 2 \<and>
   data_type_size dt_uint32 = Inr 4 \<and> data_type_size dt_uint64 = Inr 8 \<and>
   data_type_size dt_uint128 = Inr 16 \<and>
   data_type_size dt_int8 = Inr 1 \<and> data_type_size dt_int16 = Inr 2 \<and>
   data_type_size dt_int32 = Inr 4 \<and> data_type_size dt_int64 = Inr 8 \<and>
   data_type_size dt_int128 = Inr 16 \<and>
   data_type_size dt_float16 = Inr 2 \<and> data_type_size dt_float32 = Inr 4 \<and>
   data_type_size dt_float64 = Inr 8 \<and> data_type_size dt_float128 = Inr 16 \<and>
   data_type_size dt_invalid = Inl (runtime_error ''invalid data type'')"
  by (simp add: data_type_size_def DataType_defs)

text \<open>
  C3: the attribute type registry has no entry for \<^verbatim>\<open>attr_mapchannel_data\<close> and
  \<^verbatim>\<open>attr_mapchannel_index\<close>, two non-invalid enumerators: their name lookup raises
  \<^verbatim>\<open>std::out_of_range\<close>, and so does the lookup of the names the header itself
  uses for them.
\<close>

theorem mapchannel_types_have_no_name:
  "attribute_type_to_string attr_mapchannel_data = Inl out_of_range \<and>
   attribute_type_to_string attr_mapchannel_index = Inl out_of_range \<and>
   attribute_type_from_string ''map_channel_data'' = Inl out_of_range \<and>
   attribute_type_from_string ''map_channel_index'' = Inl out_of_range"
  by (simp add: registry_defs)

subsection \<open>validate\<close>

text \<open>
  C9, as stated, fails: a descriptor whose association is out of range and whose
  arity is zero has \<open>data_arity \<le> 0\<close>, and \<^verbatim>\<open>validate\<close> reports the association,
  a range error and not an arity error.
\<close>

theorem validate_arity_not_exact:
  "data_arity (vertex_coordinate\<lparr> association := - 1, data_arity := 0 \<rparr>) \<le> 0 \<and>
   validate (vertex_coordinate\<lparr> association := - 1, data_arity := 0 \<rparr>)
     = Inl (runtime_error ''association out of range'') \<and>
   RangeError (runtime_error ''association out of range'') \<and>
   \<not> ArityError (runtime_error ''association out of range'')"
  by (simp add: validate_def vertex_coordinate_def RangeError_def ArityError_def Association_defs)

text \<open>
  C9, amended: \<^verbatim>\<open>validate\<close> succeeds exactly when the three enumeration members
  are inside their spans and the arity is positive. The checks run in the order
  association, attribute type, arity, data type, and the first that fails decides
  the error: a range error exactly when the association or the attribute type is out
  of span, or the arity is positive and the data type is out of span; an arity error
  exactly when association and attribute type are in span and the arity is not
  positive.
\<close>

theorem validate_outcomes:
  "(validate d = Inr ()) =
     (0 \<le> association d \<and> association d < assoc_invalid \<and>
      0 \<le> attribute_type d \<and> attribute_type d < attr_invalid \<and>
      0 \<le> data_type d \<and> data_type d < dt_invalid \<and> 0 < data_arity d) \<and>
   (\<exists>e. validate d = Inl e \<and> RangeError e) =
     (out_of_span (association d) assoc_invalid \<or>
      out_of_span (attribute_type d) attr_invalid \<or>
      (0 < data_arity d \<and> out_of_span (data_type d) dt_invalid)) \<and>
   (\<exists>e. validate d = Inl e \<and> ArityError e) =
     (0 \<le> association d \<and> association d < assoc_invalid \<and>
      0 \<le> attribute_type d \<and> attribute_type d < attr_invalid \<and> data_arity d \<le> 0)"
  unfolding validate_def out_of_span_def RangeError_def ArityError_def
  by (auto simp: not_le not_less)

text \<open>C9: the amended statement at a valid descriptor and at the two kinds of failure.\<close>

theorem validate_outcomes_witness:
  "validate vertex_coordinate = Inr () \<and>
   (\<exists>e. validate (vertex_coordinate\<lparr> data_arity := 0 \<rparr>) = Inl e \<and> ArityError e) \<and>
   (\<exists>e. validate (vertex_coordinate\<lparr> data_type := dt_invalid \<rparr>) = Inl e \<and> RangeError e)"
  using validate_outcomes [of vertex_coordinate]
        validate_outcomes [of "vertex_coordinate\<lparr> data_arity := 0 \<rparr>"]
        validate_outcomes [of "vertex_coordinate\<lparr> data_type := dt_invalid \<rparr>"]
  by (simp add: vertex_coordinate_def out_of_span_def DataType_defs Association_defs
      AttributeType_defs)

subsection \<open>Canonical strings\<close>

lemma ostream_int_small:
  "ostream_int 0 = ''0''" "ostream_int 1 = ''1''" "ostream_int 2 = ''2''" "ostream_int 3 = ''3''"
  by (simp_all add: ostream_int_def ostream_nat.simps digit_char_def)

lemma stoi_small: "stoi ''0'' = Inr 0" "stoi ''3'' = Inr 3"
  by (simp_all add: stoi_def isspace_def isdigit_def digits_value_def Let_def)

lemma oss_str_vertex_coordinate:
  "oss_str vertex_coordinate = Inr ''g3d:vertex:color:0:float32:3''"
  by (simp add: string_defs vertex_coordinate_def registry_defs ostream_int_small)

lemma from_string_vertex_color:
  "from_string by_value ''g3d:vertex:color:0:float32:3''
     = Inr (vertex_coordinate\<lparr> attribute_type := attr_color \<rparr>)"
  by (simp add: from_string_def split_str.simps getline_def next_token_def stoi_small
      registry_defs validate_def string_defs vertex_coordinate_def ostream_int_small)

lemma canonical_string_vertex_coordinate:
  "canonical_string vertex_coordinate = Inr ''g3d:vertex:coordinate:0:float32:3''"
  by (simp add: canonical_string_def and_then_def vertex_coordinate_def registry_defs
      ostream_int_small)

text \<open>
  C1: the descriptor (vertex, coordinate, 0, float32, 3) is valid. \<^verbatim>\<open>to_string\<close>
  builds for it a text that names the attribute type \<open>color\<close>, the entry of the
  attribute type registry at the number of \<open>float32\<close>, and returns a reference to
  the destroyed temporary. With the return read by value, parsing that text
  returns a descriptor whose attribute type is \<^verbatim>\<open>attr_color\<close>, not
  \<^verbatim>\<open>attr_coordinate\<close>; as written, parsing it reads the dead string and no
  descriptor is defined.
\<close>

theorem round_trip_changes_attribute_type:
  "validate vertex_coordinate = Inr () \<and>
   to_string vertex_coordinate = Inr (destroyed_temporary ''g3d:vertex:color:0:float32:3'') \<and>
   canonical_string vertex_coordinate = Inr ''g3d:vertex:coordinate:0:float32:3'' \<and>
   parse_own_string by_value vertex_coordinate
     = Inr (vertex_coordinate\<lparr> attribute_type := attr_color \<rparr>) \<and>
   parse_own_string as_written vertex_coordinate = Inl undefined_behaviour \<and>
   attribute_type vertex_coordinate = attr_coordinate \<and>
   attr_color \<noteq> attr_coordinate"
proof -
  have "validate vertex_coordinate = Inr ()"
    by (simp add: validate_def vertex_coordinate_def DataType_defs Association_defs
        AttributeType_defs)
  moreover have "to_string vertex_coordinate
      = Inr (destroyed_temporary ''g3d:vertex:color:0:float32:3'')"
    by (simp add: to_string_def oss_str_vertex_coordinate and_then_def)
  moreover have "parse_own_string by_value vertex_coordinate
     = Inr (vertex_coordinate\<lparr> attribute_type := attr_color \<rparr>)"
    by (simp add: parse_own_string_def oss_str_vertex_coordinate from_string_vertex_color
        and_then_def)
  moreover have "parse_own_string as_written vertex_coordinate = Inl undefined_behaviour"
    by (simp add: parse_own_string_def to_string_copy_as_written oss_str_vertex_coordinate
        and_then_def)
  moreover have "attribute_type vertex_coordinate = attr_coordinate \<and> attr_color \<noteq> attr_coordinate"
    by (simp add: vertex_coordinate_def AttributeType_defs)
  ultimately show ?thesis by (simp add: canonical_string_vertex_coordinate)
qed

text \<open>
  The decimal rendering determines the number: reading the digits back gives the
  number, and only a negative number starts with a minus sign.
\<close>

lemma digit_char_table:
  "\<forall>n \<in> set [0..<10]. int (of_char (digit_char n)) - 48 = int n \<and> digit_char n \<noteq> CHR ''-''"
  by (simp add: upt_rec digit_char_def)

lemma digit_char_value: "n < 10 \<Longrightarrow> int (of_char (digit_char n)) - 48 = int n"
  using digit_char_table by simp

lemma digit_char_not_minus: "n < 10 \<Longrightarrow> digit_char n \<noteq> CHR ''-''"
  using digit_char_table by simp

lemma digits_value_snoc:
  "digits_value (ds @ [c]) = 10 * digits_value ds + (int (of_char c) - 48)"
  by (simp add: digits_value_def)

lemma digits_value_ostream_nat: "digits_value (ostream_nat n) = int n"
proof (induction n rule: ostream_nat.induct)
  case (1 n)
  show ?case
  proof (cases "n < 10")
    case True
    then show ?thesis
      using digit_char_value [of n] by (simp add: ostream_nat.simps [of n] digits_value_def)
  next
    case False
    then have "digits_value (ostream_nat (n div 10)) = int (n div 10)" using 1 by simp
    moreover have "int (of_char (digit_char (n mod 10))) - 48 = int (n mod 10)"
      by (rule digit_char_value) simp
    ultimately show ?thesis using False
      by (simp add: ostream_nat.simps [of n] digits_value_snoc zdiv_int zmod_int)
  qed
qed

lemma ostream_nat_hd: "\<exists>c cs. ostream_nat n = c # cs \<and> c \<noteq> CHR ''-''"
proof (induction n rule: ostream_nat.induct)
  case (1 n)
  show ?case
  proof (cases "n < 10")
    case True
    then show ?thesis using digit_char_not_minus [of n] by (simp add: ostream_nat.simps [of n])
  next
    case False
    then obtain c cs where "ostream_nat (n div 10) = c # cs" "c \<noteq> CHR ''-''" using 1 by blast
    then show ?thesis using False by (simp add: ostream_nat.simps [of n])
  qed
qed

lemma ostream_nat_inj: "ostream_nat m = ostream_nat n \<Longrightarrow> m = n"
proof -
  assume e: "ostream_nat m = ostream_nat n"
  have "int m = digits_value (ostream_nat m)" by (simp only: digits_value_ostream_nat)
  also have "\<dots> = digits_value (ostream_nat n)" by (simp only: e)
  also have "\<dots> = int n" by (simp only: digits_value_ostream_nat)
  finally show "m = n" by simp
qed

lemma ostream_int_inj: "ostream_int i = ostream_int j \<Longrightarrow> i = j"
proof -
  assume eq: "ostream_int i = ostream_int j"
  obtain c' cs' where b: "ostream_nat (nat i) = c' # cs'" "c' \<noteq> CHR ''-''"
    using ostream_nat_hd by blast
  obtain e' es' where d: "ostream_nat (nat j) = e' # es'" "e' \<noteq> CHR ''-''"
    using ostream_nat_hd by blast
  show "i = j"
  proof (cases "i < 0")
    case True
    show ?thesis
    proof (cases "j < 0")
      case jn: True
      with True eq have "ostream_nat (nat (- i)) = ostream_nat (nat (- j))"
        by (simp add: ostream_int_def)
      then have "nat (- i) = nat (- j)" by (rule ostream_nat_inj)
      with True jn show ?thesis by simp
    next
      case False
      with True eq d show ?thesis by (auto simp: ostream_int_def)
    qed
  next
    case False
    show ?thesis
    proof (cases "j < 0")
      case True
      with False eq b show ?thesis by (auto simp: ostream_int_def)
    next
      case jp: False
      with False eq have "ostream_nat (nat i) = ostream_nat (nat j)"
        by (simp add: ostream_int_def)
      then have "nat i = nat j" by (rule ostream_nat_inj)
      with False jp show ?thesis by simp
    qed
  qed
qed

text \<open>
  Changing the attribute type index of a descriptor that has a string gives a
  descriptor that has a string, a different one when the index differs.
\<close>

lemma oss_str_index:
  assumes "oss_str d = Inr k"
  shows "\<exists>k'. oss_str (d\<lparr> attribute_type_index := j \<rparr>) = Inr k' \<and>
              (j \<noteq> attribute_type_index d \<longrightarrow> k' \<noteq> k)"
proof -
  from assms obtain a t dt where
    a: "association_to_string (association d) = Inr a" and
    t: "attribute_type_to_string (data_type d) = Inr t" and
    dt: "data_type_to_string (data_type d) = Inr dt" and
    k: "k = ''g3d'' @ '':'' @ a @ '':'' @ t @ '':'' @ ostream_int (attribute_type_index d)
             @ '':'' @ dt @ '':'' @ ostream_int (data_arity d)"
    by (auto simp: string_defs split: sum.splits)
  have k': "oss_str (d\<lparr> attribute_type_index := j \<rparr>) =
      Inr (''g3d'' @ '':'' @ a @ '':'' @ t @ '':'' @ ostream_int j
             @ '':'' @ dt @ '':'' @ ostream_int (data_arity d))"
    using a t dt by (simp add: string_defs)
  have "ostream_int j = ostream_int (attribute_type_index d)"
    if "''g3d'' @ '':'' @ a @ '':'' @ t @ '':'' @ ostream_int j
             @ '':'' @ dt @ '':'' @ ostream_int (data_arity d) = k"
    using that unfolding k by simp
  then show ?thesis using k' ostream_int_inj by blast
qed

text \<open>
  \<^verbatim>\<open>split\<close> on a string whose parts contain no delimiter returns the parts;
  \<^verbatim>\<open>stoi\<close> reads back what \<^verbatim>\<open>operator<<\<close> wrote.
\<close>

lemma takeWhile_no_delim: "delim \<notin> set tok \<Longrightarrow> takeWhile (\<lambda>c. c \<noteq> delim) (tok @ rest) = tok @ takeWhile (\<lambda>c. c \<noteq> delim) rest"
  by (induction tok) auto

lemma dropWhile_no_delim: "delim \<notin> set tok \<Longrightarrow> dropWhile (\<lambda>c. c \<noteq> delim) (tok @ rest) = dropWhile (\<lambda>c. c \<noteq> delim) rest"
  by (induction tok) auto

lemma split_str_token:
  assumes "delim \<notin> set tok"
  shows "split_str (tok @ delim # rest) delim = tok # split_str rest delim"
proof -
  have "getline (tok @ delim # rest) delim = Some (tok, rest)"
    using assms by (simp add: getline_def takeWhile_no_delim dropWhile_no_delim)
  then show ?thesis by (simp add: split_str.simps [of "tok @ delim # rest"])
qed

lemma split_str_last:
  assumes "delim \<notin> set tok" "tok \<noteq> []"
  shows "split_str tok delim = [tok]"
proof -
  have t: "takeWhile (\<lambda>c. c \<noteq> delim) tok = tok"
    using assms takeWhile_no_delim [of delim tok "[]"] by simp
  have d: "dropWhile (\<lambda>c. c \<noteq> delim) tok = []"
    using assms dropWhile_no_delim [of delim tok "[]"] by simp
  have "getline tok delim = Some (tok, [])"
    using assms unfolding getline_def t d by simp
  moreover have "split_str [] delim = []" by (simp add: split_str.simps [of "[]"] getline_def)
  ultimately show ?thesis by (simp add: split_str.simps [of tok])
qed

lemma digit_char_isdigit_table:
  "\<forall>n \<in> set [0..<10]. isdigit (digit_char n) \<and> \<not> isspace (digit_char n) \<and>
      digit_char n \<noteq> CHR '':'' \<and> digit_char n \<noteq> CHR ''+''"
  by (simp add: upt_rec digit_char_def isdigit_def isspace_def)

lemma ostream_nat_digits:
  "\<forall>c \<in> set (ostream_nat n). isdigit c \<and> \<not> isspace c \<and> c \<noteq> CHR '':'' \<and> c \<noteq> CHR ''+'' \<and> c \<noteq> CHR ''-''"
proof (induction n rule: ostream_nat.induct)
  case (1 n)
  have d: "isdigit (digit_char m) \<and> \<not> isspace (digit_char m) \<and> digit_char m \<noteq> CHR '':'' \<and>
           digit_char m \<noteq> CHR ''+'' \<and> digit_char m \<noteq> CHR ''-''" if "m < 10" for m
    using that digit_char_isdigit_table digit_char_not_minus by simp
  show ?case
  proof (cases "n < 10")
    case True
    then show ?thesis using d [of n] by (simp add: ostream_nat.simps [of n])
  next
    case False
    moreover have "n mod 10 < 10" by simp
    ultimately show ?thesis using 1 d [of "n mod 10"] by (simp add: ostream_nat.simps [of n])
  qed
qed

lemma ostream_nat_nonempty: "ostream_nat n \<noteq> []"
  using ostream_nat_hd [of n] by auto

lemma stoi_digits:
  assumes "ds = ostream_nat n"
  shows "dropWhile isspace ds = ds" "takeWhile isdigit ds = ds"
        "hd ds \<noteq> CHR ''-''" "hd ds \<noteq> CHR ''+''"
proof -
  from ostream_nat_hd [of n] obtain c cs where c: "ds = c # cs" using assms by auto
  have all: "\<forall>x \<in> set ds. isdigit x \<and> \<not> isspace x \<and> x \<noteq> CHR '':'' \<and> x \<noteq> CHR ''+'' \<and> x \<noteq> CHR ''-''"
    using ostream_nat_digits [of n] assms by simp
  show "dropWhile isspace ds = ds" using c all by simp
  show "takeWhile isdigit ds = ds" using all by simp
  show "hd ds \<noteq> CHR ''-''" "hd ds \<noteq> CHR ''+''" using c all by simp_all
qed

lemma stoi_ostream_int:
  assumes "- (2 ^ 31) \<le> i" "i < 2 ^ 31"
  shows "stoi (ostream_int i) = Inr i"
proof (cases "i < 0")
  case True
  let ?ds = "ostream_nat (nat (- i))"
  have ne: "?ds \<noteq> []" by (rule ostream_nat_nonempty)
  have v: "digits_value ?ds = - i" using True by (simp add: digits_value_ostream_nat)
  have t: "takeWhile isdigit ?ds = ?ds" by (rule stoi_digits(2)) simp
  have "stoi (CHR ''-'' # ?ds) = Inr i"
    using assms ne by (simp add: stoi_def isspace_def Let_def t v)
  with True show ?thesis by (simp add: ostream_int_def)
next
  case False
  let ?ds = "ostream_nat (nat i)"
  obtain c cs where c: "?ds = c # cs" using ostream_nat_hd [of "nat i"] by auto
  have ne: "?ds \<noteq> []" by (rule ostream_nat_nonempty)
  have v: "digits_value ?ds = i" using False by (simp add: digits_value_ostream_nat)
  have s: "dropWhile isspace ?ds = ?ds" by (rule stoi_digits(1)) simp
  have t: "takeWhile isdigit ?ds = ?ds" by (rule stoi_digits(2)) simp
  have h: "hd ?ds \<noteq> CHR ''-''" "hd ?ds \<noteq> CHR ''+''"
    by (rule stoi_digits(3), simp) (rule stoi_digits(4), simp)
  have neg: "(case ?ds of [] \<Rightarrow> False | x # xs \<Rightarrow> x = CHR ''-'') = False"
    using h c by simp
  have s2: "(case ?ds of [] \<Rightarrow> ?ds
             | x # r \<Rightarrow> if x = CHR ''-'' \<or> x = CHR ''+'' then r else ?ds) = ?ds"
    using h c by simp
  have "stoi ?ds = Inr i"
    unfolding stoi_def s Let_def neg s2 t v using assms ne by simp
  with False show ?thesis by (simp add: ostream_int_def)
qed

lemma ostream_int_no_colon: "CHR '':'' \<notin> set (ostream_int i)"
  using ostream_nat_digits by (auto simp: ostream_int_def)

lemma ostream_int_nonempty: "ostream_int i \<noteq> []"
  using ostream_nat_nonempty by (simp add: ostream_int_def)

lemma valid_numbers:
  "[0..5] = [0, 1, 2, 3, 4, 5 :: int]"
  "[0..13] = [0, 1, 2, 3, 4, 5, 6, 7, 8, 9, 10, 11, 12, 13 :: int]"
  by (simp_all add: upto.simps)

lemma association_names:
  "\<forall>v \<in> set [0, 1, 2, 3, 4, 5]. \<exists>a. association_to_string v = Inr a \<and>
      association_from_string a = Inr v \<and> CHR '':'' \<notin> set a"
  by (simp add: registry_defs)

lemma attribute_type_names:
  "\<forall>v \<in> set [0, 1, 2, 3, 4, 5, 6, 7, 8, 9, 10, 11, 12, 13].
      \<exists>t. attribute_type_to_string v = Inr t \<and>
      attribute_type_from_string t = Inr v \<and> CHR '':'' \<notin> set t"
  by (simp add: registry_defs)

lemma data_type_names:
  "\<forall>v \<in> set [0, 1, 2, 3, 4, 5, 6, 7, 8, 9, 10, 11, 12, 13].
      \<exists>s. data_type_to_string v = Inr s \<and>
      data_type_from_string s = Inr v \<and> CHR '':'' \<notin> set s"
  by (simp add: registry_defs)

lemma oss_str_ignores_attribute_type:
  "oss_str (d\<lparr> attribute_type := x \<rparr>) = oss_str d"
  by (simp add: string_defs)

lemma split_str_canonical:
  assumes "CHR '':'' \<notin> set a" "CHR '':'' \<notin> set t" "CHR '':'' \<notin> set i"
    "CHR '':'' \<notin> set dt" "CHR '':'' \<notin> set n" "n \<noteq> []"
  shows "split_str (''g3d'' @ '':'' @ a @ '':'' @ t @ '':'' @ i @ '':'' @ dt @ '':'' @ n) CHR '':''
           = [''g3d'', a, t, i, dt, n]"
proof -
  have g: "CHR '':'' \<notin> set ''g3d''" by simp
  have "split_str (''g3d'' @ CHR '':'' # (a @ CHR '':'' # (t @ CHR '':'' # (i @ CHR '':'' #
           (dt @ CHR '':'' # n))))) CHR '':'' = [''g3d'', a, t, i, dt, n]"
    by (simp only: split_str_token [OF g] split_str_token [OF assms(1)]
        split_str_token [OF assms(2)] split_str_token [OF assms(3)]
        split_str_token [OF assms(4)] split_str_last [OF assms(5) assms(6)])
  then show ?thesis by simp
qed

text \<open>
  For every valid descriptor, parsing its own string succeeds and returns the
  descriptor with the data type's number in place of the attribute type: the round
  trip reproduces the descriptor exactly when the two numbers coincide.
\<close>

lemma from_string_to_string:
  assumes v: "validate d = Inr ()"
      and i: "- (2 ^ 31) \<le> attribute_type_index d" "attribute_type_index d < 2 ^ 31"
      and n: "data_arity d < 2 ^ 31"
  shows "parse_own_string by_value d = Inr (d\<lparr> attribute_type := data_type d \<rparr>)"
proof -
  let ?d' = "d\<lparr> attribute_type := data_type d \<rparr>"
  from v have r: "0 \<le> association d" "association d \<le> 5" "0 \<le> data_type d" "data_type d \<le> 13"
      "0 < data_arity d" "0 \<le> attribute_type d" "attribute_type d < attr_invalid"
    by (auto simp: validate_def Association_defs DataType_defs split: if_splits)
  from r have "association d \<in> set [0..5]" "data_type d \<in> set [0..13]" by simp_all
  then have m: "association d \<in> set [0, 1, 2, 3, 4, 5]"
    "data_type d \<in> set [0, 1, 2, 3, 4, 5, 6, 7, 8, 9, 10, 11, 12, 13]"
    by (simp_all only: valid_numbers)
  from association_names m(1) obtain a where a: "association_to_string (association d) = Inr a"
    "association_from_string a = Inr (association d)" "CHR '':'' \<notin> set a"
    by blast
  from attribute_type_names m(2) obtain t where t: "attribute_type_to_string (data_type d) = Inr t"
    "attribute_type_from_string t = Inr (data_type d)" "CHR '':'' \<notin> set t"
    by blast
  from data_type_names m(2) obtain dt where dt: "data_type_to_string (data_type d) = Inr dt"
    "data_type_from_string dt = Inr (data_type d)" "CHR '':'' \<notin> set dt"
    by blast
  let ?i = "ostream_int (attribute_type_index d)"
  let ?n = "ostream_int (data_arity d)"
  let ?k = "''g3d'' @ '':'' @ a @ '':'' @ t @ '':'' @ ?i @ '':'' @ dt @ '':'' @ ?n"
  have k: "oss_str d = Inr ?k" using a t dt by (simp add: string_defs)
  have k': "oss_str ?d' = Inr ?k" using k by (simp only: oss_str_ignores_attribute_type)
  have sp: "split_str ?k CHR '':'' = [''g3d'', a, t, ?i, dt, ?n]"
    by (rule split_str_canonical [OF a(3) t(3) ostream_int_no_colon dt(3)
          ostream_int_no_colon ostream_int_nonempty])
  have si: "stoi ?i = Inr (attribute_type_index d)" using i by (rule stoi_ostream_int)
  have sn: "stoi ?n = Inr (data_arity d)" using r n by (intro stoi_ostream_int) simp_all
  have rec: "\<lparr> association = association d, attribute_type = data_type d,
      attribute_type_index = attribute_type_index d, data_arity = data_arity d,
      data_type = data_type d \<rparr> = ?d'" by simp
  have v': "validate ?d' = Inr ()"
    using v r by (simp add: validate_def Association_defs DataType_defs AttributeType_defs)
  have "from_string by_value ?k = Inr ?d'"
    unfolding from_string_def sp next_token_def
    by (simp only: list.case a t dt si sn and_then_def sum.case rec v' k' Let_def if_False if_True
        not_not refl simp_thms to_string_copy_by_value)
  with k show ?thesis by (simp add: parse_own_string_def and_then_def)
qed

text \<open>
  As written, the last check of \<^verbatim>\<open>from_string\<close> copies from the dead
  temporary: no call of \<^verbatim>\<open>from_string\<close> returns a descriptor.
\<close>

lemma from_string_as_written_never: "from_string as_written s \<noteq> Inr d"
  by (auto simp: from_string_def next_token_def and_then_def Let_def
      to_string_copy_as_written split: list.splits sum.splits if_splits)

lemma round_trip_iff:
  assumes "validate d = Inr ()"
      and "- (2 ^ 31) \<le> attribute_type_index d" "attribute_type_index d < 2 ^ 31"
      and "data_arity d < 2 ^ 31"
  shows "(parse_own_string by_value d = Inr d) = (attribute_type d = data_type d)"
proof -
  have "(d\<lparr> attribute_type := data_type d \<rparr> = d) = (attribute_type d = data_type d)"
  proof
    assume "d\<lparr> attribute_type := data_type d \<rparr> = d"
    then have "attribute_type (d\<lparr> attribute_type := data_type d \<rparr>) = attribute_type d"
      by (simp only:)
    then show "attribute_type d = data_type d" by simp
  next
    assume "attribute_type d = data_type d"
    then show "d\<lparr> attribute_type := data_type d \<rparr> = d" by simp
  qed
  then show ?thesis using from_string_to_string [OF assms] by simp
qed

subsection \<open>Attribute\<close>

lemma word_mod_zero_iff: "(x mod k = 0) = (unat k dvd unat x)" for x k :: "'a::len word"
  by (simp add: dvd_eq_mod_eq_0 unat_mod flip: unat_eq_zero)

lemma data_element_size_vertex_coordinate:
  "data_element_size \<lparr> descriptor = vertex_coordinate, a_begin = b, a_end = e \<rparr> = Inr 12"
  by (simp add: data_element_size_def vertex_coordinate_def data_type_size_def DataType_defs
      and_then_def)

text \<open>
  For non-null bounds and a descriptor whose element size \<open>k\<close> is defined and not
  zero, the constructor succeeds exactly when the byte size is a multiple of \<open>k\<close>;
  then \<^verbatim>\<open>num_elements\<close> is the quotient, and otherwise the constructor raises
  the alignment error.
\<close>

lemma Attribute_ctor_for_element_size:
  assumes nn: "begin_p \<noteq> 0" "end_p \<noteq> 0"
      and k: "data_element_size \<lparr> descriptor = desc, a_begin = begin_p, a_end = end_p \<rparr> = Inr k"
      and k0: "k \<noteq> 0"
  shows "((\<exists>a. Attribute_ctor desc begin_p end_p = Inr a) = (unat k dvd unat (end_p - begin_p))) \<and>
         (if unat k dvd unat (end_p - begin_p)
          then and_then (Attribute_ctor desc begin_p end_p) num_elements = Inr ((end_p - begin_p) div k) \<and>
               unat ((end_p - begin_p) div k) = unat (end_p - begin_p) div unat k
          else Attribute_ctor desc begin_p end_p
                 = Inl (runtime_error ''Data buffer is not the correct alignment''))"
  using nn k k0
  by (simp add: Attribute_ctor_def Let_def and_then_def num_elements_def byte_size_def
      word_mod_zero_iff unat_div)

lemma data_type_size_bounds: "data_type_size dt = Inr sz \<Longrightarrow> 0 < sz \<and> sz \<le> 16"
  by (auto simp: data_type_size_def split: if_splits)

text \<open>
  The element size of a descriptor with a valid data type and a positive arity
  whose product fits \<^verbatim>\<open>int32_t\<close> is that product.
\<close>

lemma data_element_size_product:
  assumes sz: "data_type_size (data_type desc) = Inr sz"
      and pos: "0 < data_arity desc"
      and fits: "sz * data_arity desc < 2 ^ 31"
  shows "\<exists>k. data_element_size \<lparr> descriptor = desc, a_begin = b, a_end = e \<rparr> = Inr k \<and>
             k \<noteq> 0 \<and> unat k = nat (sz * data_arity desc)"
proof -
  define q where "q = sz * data_arity desc"
  from data_type_size_bounds [OF sz] pos have q0: "0 < q" by (simp add: q_def)
  from fits have q31: "q < 2 ^ 31" by (simp add: q_def)
  have "q mod 2 ^ 64 = q"
  proof (rule mod_pos_pos_trivial)
    show "0 \<le> q" using q0 by simp
    show "q < 2 ^ 64" using q31 by simp
  qed
  then have u: "uint (word_of_int q :: 64 word) = q"
    by (simp add: uint_word_of_int take_bit_eq_mod)
  then have n: "unat (word_of_int q :: 64 word) = nat q"
    by (simp add: unat_eq_nat_uint)
  have ne: "(word_of_int q :: 64 word) \<noteq> 0"
  proof
    assume "(word_of_int q :: 64 word) = 0"
    then have "uint (word_of_int q :: 64 word) = 0" by simp
    with u q0 show False by simp
  qed
  have "data_element_size \<lparr> descriptor = desc, a_begin = b, a_end = e \<rparr>
      = (let p = sz * data_arity desc in
         if p < - (2 ^ 31) \<or> p > 2 ^ 31 - 1 then Inl undefined_behaviour else Inr (word_of_int p))"
    using sz by (simp add: data_element_size_def and_then_def)
  also have "\<dots> = Inr (word_of_int q)"
    unfolding Let_def q_def [symmetric] using q0 q31 by simp
  finally have "data_element_size \<lparr> descriptor = desc, a_begin = b, a_end = e \<rparr>
      = Inr (word_of_int q)" .
  with n ne show ?thesis unfolding q_def by blast
qed

text \<open>
  C4, as stated, fails: the descriptor (vertex, coordinate, 0, float32, arity
  \<open>2 ^ 30\<close>) passes \<^verbatim>\<open>validate\<close>, its element size is \<open>4 * 2 ^ 30 = 2 ^ 32\<close>, and the
  empty range at a non-null address has a byte size, zero, that is a multiple of
  it; the constructor's \<^verbatim>\<open>int32_t\<close> product overflows and no Attribute is
  constructed.
\<close>

theorem Attribute_ctor_overflow:
  "validate big_arity = Inr () \<and>
   data_type_size (data_type big_arity) = Inr 4 \<and>
   4 * data_arity big_arity = 2 ^ 32 \<and>
   (4096 :: pointer) \<noteq> 0 \<and>
   byte_size \<lparr> descriptor = big_arity, a_begin = 4096, a_end = 4096 \<rparr> = 0 \<and>
   (0 :: int) mod (4 * data_arity big_arity) = 0 \<and>
   Attribute_ctor big_arity 4096 4096 = Inl undefined_behaviour"
  by (simp add: big_arity_def validate_def data_type_size_def byte_size_def Attribute_ctor_def
      data_element_size_def and_then_def Let_def DataType_defs Association_defs
      AttributeType_defs)

text \<open>
  C4, amended: for non-null bounds and a descriptor with a valid data type and a
  positive arity whose product \<open>data_type_size(data_type) * data_arity\<close> fits
  \<^verbatim>\<open>int32_t\<close>, the constructor succeeds exactly when the byte size is a multiple of
  that product; then \<^verbatim>\<open>num_elements\<close> is the byte size divided by the product, and
  otherwise the constructor raises the alignment error.
\<close>

theorem Attribute_alignment:
  assumes nn: "begin_p \<noteq> 0" "end_p \<noteq> 0"
      and sz: "data_type_size (data_type desc) = Inr sz"
      and pos: "0 < data_arity desc"
      and fits: "sz * data_arity desc < 2 ^ 31"
  shows "((\<exists>a. Attribute_ctor desc begin_p end_p = Inr a)
            = (nat (sz * data_arity desc) dvd unat (end_p - begin_p))) \<and>
         (if nat (sz * data_arity desc) dvd unat (end_p - begin_p)
          then \<exists>n. and_then (Attribute_ctor desc begin_p end_p) num_elements = Inr n \<and>
                   unat n = unat (end_p - begin_p) div nat (sz * data_arity desc)
          else Attribute_ctor desc begin_p end_p
                 = Inl (runtime_error ''Data buffer is not the correct alignment''))"
proof -
  from data_element_size_product [OF sz pos fits, of begin_p end_p] obtain k where
    k: "data_element_size \<lparr> descriptor = desc, a_begin = begin_p, a_end = end_p \<rparr> = Inr k"
    and k0: "k \<noteq> 0" and u: "unat k = nat (sz * data_arity desc)" by blast
  from Attribute_ctor_for_element_size [OF nn k k0] show ?thesis
    unfolding u by (simp split: if_splits)
qed

text \<open>
  C4 at the descriptor (vertex, coordinate, 0, float32, 3), whose element size is
  \<open>4 * 3 = 12\<close>: a range of 11 bytes raises the alignment error, a range of 24 bytes
  is accepted and has 2 elements.
\<close>

theorem Attribute_alignment_witness:
  "(4096 :: pointer) \<noteq> 0 \<and> (4096 + 11 :: pointer) \<noteq> 0 \<and> (4096 + 24 :: pointer) \<noteq> 0 \<and>
   data_type_size (data_type vertex_coordinate) = Inr 4 \<and>
   0 < data_arity vertex_coordinate \<and> 4 * data_arity vertex_coordinate = 12 \<and>
   Attribute_ctor vertex_coordinate 4096 (4096 + 11)
     = Inl (runtime_error ''Data buffer is not the correct alignment'') \<and>
   (\<exists>a. Attribute_ctor vertex_coordinate 4096 (4096 + 24) = Inr a) \<and>
   (\<exists>n. and_then (Attribute_ctor vertex_coordinate 4096 (4096 + 24)) num_elements = Inr n \<and>
        unat n = 2)"
proof -
  have sz: "data_type_size (data_type vertex_coordinate) = Inr 4"
    by (simp add: vertex_coordinate_def data_type_size_def DataType_defs)
  have ar: "data_arity vertex_coordinate = 3" by (simp add: vertex_coordinate_def)
  have a: "(4096 :: pointer) \<noteq> 0" "(4096 + 11 :: pointer) \<noteq> 0" "(4096 + 24 :: pointer) \<noteq> 0"
    by simp_all
  have pos: "0 < data_arity vertex_coordinate" and fits: "4 * data_arity vertex_coordinate < 2 ^ 31"
    by (simp_all add: ar)
  from Attribute_alignment [OF a(1) a(2) sz pos fits]
  have 1: "Attribute_ctor vertex_coordinate 4096 (4096 + 11)
     = Inl (runtime_error ''Data buffer is not the correct alignment'')"
    by (simp add: ar)
  from Attribute_alignment [OF a(1) a(3) sz pos fits]
  have 2: "(\<exists>a. Attribute_ctor vertex_coordinate 4096 (4096 + 24) = Inr a) \<and>
           (\<exists>n. and_then (Attribute_ctor vertex_coordinate 4096 (4096 + 24)) num_elements = Inr n \<and>
                unat n = 2)"
    by (simp add: ar)
  from 1 2 sz show ?thesis by (simp add: ar)
qed

subsection \<open>The attribute collection\<close>

lemma Attribute_ctor_index:
  "Attribute_ctor d b e = Inr a \<Longrightarrow>
   Attribute_ctor (d\<lparr> attribute_type_index := j \<rparr>) b e
     = Inr (a\<lparr> descriptor := d\<lparr> attribute_type_index := j \<rparr> \<rparr>)"
proof -
  assume ok: "Attribute_ctor d b e = Inr a"
  then have nn: "b \<noteq> 0 \<and> e \<noteq> 0"
    by (auto simp: Attribute_ctor_def Let_def split: if_splits)
  then obtain k where k: "data_element_size \<lparr> descriptor = d, a_begin = b, a_end = e \<rparr> = Inr k"
    using ok by (cases "data_element_size \<lparr> descriptor = d, a_begin = b, a_end = e \<rparr>")
      (auto simp: Attribute_ctor_def Let_def and_then_def)
  then have k': "data_element_size \<lparr> descriptor = d\<lparr> attribute_type_index := j \<rparr>, a_begin = b, a_end = e \<rparr> = Inr k"
    by (simp add: data_element_size_def)
  from ok nn k have c: "k \<noteq> 0 \<and> unat k dvd unat (e - b) \<and> a = \<lparr> descriptor = d, a_begin = b, a_end = e \<rparr>"
    by (simp add: Attribute_ctor_def Let_def and_then_def byte_size_def word_mod_zero_iff split: if_splits)
  with nn k' show ?thesis
    by (simp add: Attribute_ctor_def Let_def and_then_def byte_size_def word_mod_zero_iff)
qed

lemma new_builder_index:
  assumes "new_builder sT al d n p = Inr r"
  shows "\<exists>r'. new_builder sT al (d\<lparr> attribute_type_index := j \<rparr>) n p = Inr r'"
proof (cases "p = 0")
  case True
  with assms obtain a where "Attribute_ctor d al (al + n * of_nat sT) = Inr a"
    by (auto simp: new_builder_def AttributeBuilderOwn_def and_then_def Let_def split: sum.splits)
  from Attribute_ctor_index [OF this, of j] True show ?thesis
    by (simp add: new_builder_def AttributeBuilderOwn_def and_then_def Let_def)
next
  case False
  with assms obtain a where "Attribute_ctor d p (p + n * of_nat sT) = Inr a"
    by (auto simp: new_builder_def AttributeBuilderRef_def and_then_def split: sum.splits)
  from Attribute_ctor_index [OF this, of j] False show ?thesis
    by (simp add: new_builder_def AttributeBuilderRef_def and_then_def)
qed

lemma add_attribute_alt:
  "add_attribute by_value sT al d n p g =
     (case oss_str d of Inl e \<Rightarrow> (Inl e, g) | Inr name \<Rightarrow>
        if builders g name \<noteq> None
          then (Inl (runtime_error ''Attribute descriptor already exists''), g)
        else (case new_builder sT al d n p of Inl e \<Rightarrow> (Inl e, g)
              | Inr r \<Rightarrow> (Inr r, g\<lparr> builders := (builders g)(name \<mapsto> r) \<rparr>)))"
  by (cases "p = 0") (simp_all add: add_attribute_def new_builder_def split: sum.splits)

lemma add_attribute_success:
  assumes "add_attribute by_value sT al d n p g = (Inr r, g1)"
  shows "\<exists>k. oss_str d = Inr k \<and> builders g k = None \<and> new_builder sT al d n p = Inr r \<and>
             g1 = g\<lparr> builders := (builders g)(k \<mapsto> r) \<rparr>"
  using assms by (auto simp: add_attribute_alt split: sum.splits if_splits)

lemma add_attribute_present:
  "oss_str d = Inr k \<Longrightarrow> builders g k = Some r \<Longrightarrow>
   add_attribute by_value sT al d n p g = (Inl (runtime_error ''Attribute descriptor already exists''), g)"
  by (simp add: add_attribute_alt)

text \<open>An exception of \<^verbatim>\<open>add_attribute\<close> leaves the collection as it was.\<close>

lemma add_attribute_exception:
  "add_attribute by_value sT al d n p g = (Inl e, g') \<Longrightarrow> g' = g"
  by (auto simp: add_attribute_alt split: sum.splits if_splits)

text \<open>
  The duplicate check, with the return of \<^verbatim>\<open>to_string\<close> read by value: after a
  successful \<^verbatim>\<open>add_attribute\<close> of a descriptor \<open>d\<close> the collection holds the new
  builder under the text \<open>k\<close> that \<^verbatim>\<open>to_string\<close> builds for \<open>d\<close>; any further call
  whose descriptor has the same text raises "Attribute descriptor already exists"
  and leaves the collection as it is; and the same call for \<open>d\<close> with another
  attribute type index, whose text \<open>k'\<close> is then a different one and was not in the
  collection, succeeds and adds its builder under \<open>k'\<close>.
\<close>

lemma add_attribute_duplicate_check:
  assumes first: "add_attribute by_value sT al d n p g = (Inr r, g1)"
  shows "\<exists>k k'. oss_str d = Inr k \<and> builders g1 k = Some r \<and>
           oss_str (d\<lparr> attribute_type_index := j \<rparr>) = Inr k' \<and>
           (oss_str d2 = Inr k \<longrightarrow>
              add_attribute by_value sT2 al2 d2 n2 p2 g1
                = (Inl (runtime_error ''Attribute descriptor already exists''), g1)) \<and>
           (j \<noteq> attribute_type_index d \<and> builders g k' = None \<longrightarrow>
              k' \<noteq> k \<and>
              (\<exists>r'. add_attribute by_value sT al (d\<lparr> attribute_type_index := j \<rparr>) n p g1
                      = (Inr r', g1\<lparr> builders := (builders g1)(k' \<mapsto> r') \<rparr>)))"
proof -
  from add_attribute_success [OF first] obtain k where
    k: "oss_str d = Inr k" and fresh: "builders g k = None"
    and nb: "new_builder sT al d n p = Inr r"
    and g1: "g1 = g\<lparr> builders := (builders g)(k \<mapsto> r) \<rparr>" by blast
  from oss_str_index [OF k, of j] obtain k' where
    k': "oss_str (d\<lparr> attribute_type_index := j \<rparr>) = Inr k'"
    and ne: "j \<noteq> attribute_type_index d \<longrightarrow> k' \<noteq> k" by blast
  from new_builder_index [OF nb, of j] obtain r' where
    nb': "new_builder sT al (d\<lparr> attribute_type_index := j \<rparr>) n p = Inr r'" by blast
  have present: "builders g1 k = Some r" using g1 by simp
  have dup: "oss_str d2 = Inr k \<longrightarrow>
      add_attribute by_value sT2 al2 d2 n2 p2 g1
        = (Inl (runtime_error ''Attribute descriptor already exists''), g1)"
    using present by (simp add: add_attribute_present)
  have other: "j \<noteq> attribute_type_index d \<and> builders g k' = None \<longrightarrow>
      k' \<noteq> k \<and> (\<exists>r'. add_attribute by_value sT al (d\<lparr> attribute_type_index := j \<rparr>) n p g1
                      = (Inr r', g1\<lparr> builders := (builders g1)(k' \<mapsto> r') \<rparr>))"
    using ne k' nb' g1 by (auto simp: add_attribute_alt)
  show ?thesis using k present k' dup other by blast
qed

lemma oss_str_vertex_uv:
  "oss_str (vertex_uv 0) = Inr ''g3d:vertex:color:0:float32:2''"
  "oss_str (vertex_uv 1) = Inr ''g3d:vertex:color:1:float32:2''"
  by (simp_all add: string_defs vertex_uv_def registry_defs ostream_int_small)

lemma Attribute_ctor_vertex_uv:
  "Attribute_ctor (vertex_uv i) 8192 (8192 + 4 * 4)
     = Inr \<lparr> descriptor = vertex_uv i, a_begin = 8192, a_end = 8208 \<rparr>"
  by (simp add: Attribute_ctor_def Let_def and_then_def data_element_size_def vertex_uv_def
      data_type_size_def DataType_defs byte_size_def)

lemma add_uv0:
  "add_attribute by_value 4 0 (vertex_uv 0) 4 8192 (G3d_ctor 4 2 6 3) = (Inr uv0_builder, uv0_added)"
  using Attribute_ctor_vertex_uv [of 0]
  by (simp add: add_attribute_def oss_str_vertex_uv G3d_ctor_def AttributeBuilderRef_def
      and_then_def uv0_builder_def uv0_added_def)

text \<open>
  On the empty collection: the first uv set (index 0) is added under the text
  built for it, adding it again raises the duplicate error, and the second uv set
  (index 1) is added.
\<close>

lemma add_uv0_then_uv1:
  "add_attribute by_value 4 0 (vertex_uv 0) 4 8192 (G3d_ctor 4 2 6 3) = (Inr uv0_builder, uv0_added) \<and>
   add_attribute by_value 4 0 (vertex_uv 0) 4 8192 uv0_added
     = (Inl (runtime_error ''Attribute descriptor already exists''), uv0_added) \<and>
   (\<exists>r'. add_attribute by_value 4 0 (vertex_uv 1) 4 8192 uv0_added
      = (Inr r', uv0_added\<lparr> builders := (builders uv0_added)(''g3d:vertex:color:1:float32:2'' \<mapsto> r') \<rparr>))"
proof -
  have upd: "(vertex_uv 0)\<lparr> attribute_type_index := 1 \<rparr> = vertex_uv 1"
    by (simp add: vertex_uv_def)
  have idx: "(1::int) \<noteq> attribute_type_index (vertex_uv 0)" by (simp add: vertex_uv_def)
  have fresh: "builders (G3d_ctor 4 2 6 3) ''g3d:vertex:color:1:float32:2'' = None"
    by (simp add: G3d_ctor_def)
  from add_attribute_duplicate_check [OF add_uv0, of 1 "vertex_uv 0" 4 0 4 8192]
  show ?thesis using idx fresh by (simp add: oss_str_vertex_uv upd add_uv0)
qed

text \<open>
  As written, the key is copied from the dead temporary: \<^verbatim>\<open>add_attribute\<close> never
  returns a builder and never changes the collection.
\<close>

lemma add_attribute_as_written:
  "\<exists>e. add_attribute as_written sT al d n p g = (Inl e, g)"
  by (cases "oss_str d") (simp_all add: add_attribute_def to_string_copy_as_written)

lemma canonical_strings_uv_color:
  "canonical_string (vertex_uv 0) = Inr ''g3d:vertex:uv:0:float32:2''"
  "canonical_string vertex_color = Inr ''g3d:vertex:color:0:float32:2''"
  by (simp_all add: canonical_string_def and_then_def vertex_uv_def vertex_color_def
      registry_defs ostream_int_small)

lemma oss_str_vertex_color: "oss_str vertex_color = Inr ''g3d:vertex:color:0:float32:2''"
  by (simp add: string_defs vertex_color_def registry_defs ostream_int_small)

lemma validate_uv_color: "validate (vertex_uv 0) = Inr ()" "validate vertex_color = Inr ()"
  by (simp_all add: validate_def vertex_uv_def vertex_color_def DataType_defs Association_defs
      AttributeType_defs)

text \<open>
  C5: the valid descriptors (vertex, uv, 0, float32, 2) and (vertex, color, 0,
  float32, 2) have different canonical strings. With the return of
  \<^verbatim>\<open>to_string\<close> read by value, \<^verbatim>\<open>add_attribute\<close> stores the uv attribute under
  the string of the color descriptor, nothing under its own canonical string,
  and then refuses the color attribute as a duplicate. As written, the key is
  copied from a destroyed temporary and the first call already adds nothing.
\<close>

theorem add_attribute_key_is_not_canonical:
  "validate (vertex_uv 0) = Inr () \<and> validate vertex_color = Inr () \<and>
   canonical_string (vertex_uv 0) = Inr ''g3d:vertex:uv:0:float32:2'' \<and>
   canonical_string vertex_color = Inr ''g3d:vertex:color:0:float32:2'' \<and>
   add_attribute by_value 4 0 (vertex_uv 0) 4 8192 (G3d_ctor 4 2 6 3)
     = (Inr uv0_builder, uv0_added) \<and>
   builders uv0_added ''g3d:vertex:uv:0:float32:2'' = None \<and>
   builders uv0_added ''g3d:vertex:color:0:float32:2'' = Some uv0_builder \<and>
   add_attribute by_value 4 0 vertex_color 4 12288 uv0_added
     = (Inl (runtime_error ''Attribute descriptor already exists''), uv0_added) \<and>
   add_attribute as_written 4 0 (vertex_uv 0) 4 8192 (G3d_ctor 4 2 6 3)
     = (Inl undefined_behaviour, G3d_ctor 4 2 6 3)"
proof -
  have stored: "builders uv0_added ''g3d:vertex:uv:0:float32:2'' = None"
    "builders uv0_added ''g3d:vertex:color:0:float32:2'' = Some uv0_builder"
    by (simp_all add: uv0_added_def)
  have dup: "add_attribute by_value 4 0 vertex_color 4 12288 uv0_added
     = (Inl (runtime_error ''Attribute descriptor already exists''), uv0_added)"
    using oss_str_vertex_color stored(2) by (rule add_attribute_present)
  have shipped: "add_attribute as_written 4 0 (vertex_uv 0) 4 8192 (G3d_ctor 4 2 6 3)
     = (Inl undefined_behaviour, G3d_ctor 4 2 6 3)"
    by (simp add: add_attribute_def to_string_copy_as_written oss_str_vertex_uv)
  show ?thesis
    using validate_uv_color canonical_strings_uv_color add_uv0 stored dup shipped by simp
qed

subsection \<open>The owning builder\<close>

lemma Attribute_ctor_uint32_scalar:
  "Attribute_ctor uint32_scalar 4096 (4096 + 4 * 4)
     = Inr \<lparr> descriptor = uint32_scalar, a_begin = 4096, a_end = 4112 \<rparr>"
  by (simp add: Attribute_ctor_def Let_def and_then_def data_element_size_def uint32_scalar_def
      data_type_size_def DataType_defs byte_size_def)

lemma replicate_16: "replicate 16 (0::byte) = [0,0,0,0,0,0,0,0,0,0,0,0,0,0,0,0]"
  by (simp add: numeral_eq_Suc)

text \<open>
  C6, as stated, fails: the owning builder for 4 elements of type uint32 (arity 1,
  a buffer of 16 bytes), given a source of 12 bytes, raises nothing and returns a
  builder.
\<close>

theorem owning_store_accepts_short_source:
  "length source12 = 12 \<and>
   AttributeBuilderOwn 4 4096 uint32_scalar 4 (Some source12)
     = Inr (Own [1, 2, 3, 4, 0, 0, 0, 0, 0, 0, 0, 0, 0, 0, 0, 0]
              \<lparr> descriptor = uint32_scalar, a_begin = 4096, a_end = 4112 \<rparr>)"
  using Attribute_ctor_uint32_scalar
  by (simp add: AttributeBuilderOwn_def Let_def and_then_def memcpy_s_def source12_def replicate_16)

lemma Attribute_ctor_result:
  "Attribute_ctor d b e = Inr a \<Longrightarrow> a = \<lparr> descriptor = d, a_begin = b, a_end = e \<rparr>"
  by (auto simp: Attribute_ctor_def Let_def and_then_def split: if_splits sum.splits)

lemma memcpy_s_length: "memcpy_s dest destsz src count = Inr buf \<Longrightarrow> length buf = length dest"
  by (auto simp: memcpy_s_def split: if_splits)

lemma memcpy_s_error: "memcpy_s dest destsz src count = Inl e \<Longrightarrow> e = undefined_behaviour"
  by (auto simp: memcpy_s_def split: if_splits)

text \<open>
  C6, amended: the constructor never examines the length of the source. An
  exception raised with a source is raised without one as well (no error is due to
  the source; a read past its end is undefined, not checked). A builder that is
  returned, with or without a source, owns a buffer of \<open>size' * sizeof_T\<close> bytes and
  an attribute over exactly that range. A source at least as long as the buffer is
  accepted whenever the construction without a source succeeds.
\<close>

theorem AttributeBuilderOwn_source_not_examined:
  "(AttributeBuilderOwn sT al d n (Some src) = Inl e \<longrightarrow>
      e = undefined_behaviour \<or> AttributeBuilderOwn sT al d n None = Inl e) \<and>
   (AttributeBuilderOwn sT al d n data = Inr b \<longrightarrow>
      (\<exists>buffer. b = Own buffer \<lparr> descriptor = d, a_begin = al, a_end = al + n * of_nat sT \<rparr> \<and>
         length buffer = unat n * sT \<and> byte_size (GetAttribute b) = n * of_nat sT)) \<and>
   (0 < sT \<and> unat n * sT \<le> length src \<and> AttributeBuilderOwn sT al d n None = Inr b0 \<longrightarrow>
      (\<exists>buffer. AttributeBuilderOwn sT al d n (Some src) = Inr (Own buffer (GetAttribute b0))))"
proof (intro conjI impI)
  assume "AttributeBuilderOwn sT al d n (Some src) = Inl e"
  then show "e = undefined_behaviour \<or> AttributeBuilderOwn sT al d n None = Inl e"
    by (cases "Attribute_ctor d al (al + n * of_nat sT)")
      (auto simp: AttributeBuilderOwn_def Let_def and_then_def split: sum.splits dest: memcpy_s_error)
next
  assume ok: "AttributeBuilderOwn sT al d n data = Inr b"
  then obtain a where a: "Attribute_ctor d al (al + n * of_nat sT) = Inr a"
    by (cases "Attribute_ctor d al (al + n * of_nat sT)")
      (auto simp: AttributeBuilderOwn_def Let_def and_then_def)
  from Attribute_ctor_result [OF a]
  have a': "a = \<lparr> descriptor = d, a_begin = al, a_end = al + n * of_nat sT \<rparr>" .
  from ok a obtain buffer where b: "b = Own buffer a" and len: "length buffer = unat n * sT"
    by (cases data)
      (auto simp: AttributeBuilderOwn_def Let_def and_then_def split: sum.splits dest: memcpy_s_length)
  show "\<exists>buffer. b = Own buffer \<lparr> descriptor = d, a_begin = al, a_end = al + n * of_nat sT \<rparr> \<and>
         length buffer = unat n * sT \<and> byte_size (GetAttribute b) = n * of_nat sT"
    using b len a' by (simp add: byte_size_def)
next
  assume h: "0 < sT \<and> unat n * sT \<le> length src \<and> AttributeBuilderOwn sT al d n None = Inr b0"
  then obtain a where a: "Attribute_ctor d al (al + n * of_nat sT) = Inr a"
    by (cases "Attribute_ctor d al (al + n * of_nat sT)")
      (auto simp: AttributeBuilderOwn_def Let_def and_then_def)
  with h have b0: "GetAttribute b0 = a"
    by (auto simp: AttributeBuilderOwn_def Let_def and_then_def)
  from h have le: "unat n \<le> unat n * sT" by simp
  from h have "unat n * sT \<le> length src" by simp
  with le have "unat n \<le> length src" by (rule order_trans)
  moreover from h have "0 < sT" by simp
  ultimately have "memcpy_s (replicate (unat n * sT) 0) n src n
      = Inr (take (unat n) src @ drop (unat n) (replicate (unat n * sT) 0))"
    unfolding memcpy_s_def by simp
  then have "\<exists>buf. memcpy_s (replicate (unat n * sT) 0) n src n = Inr buf" by blast
  then show "\<exists>buffer. AttributeBuilderOwn sT al d n (Some src) = Inr (Own buffer (GetAttribute b0))"
    using a b0 by (auto simp: AttributeBuilderOwn_def Let_def and_then_def)
qed

text \<open>
  C6 at 4 elements of type uint32: with a null buffer address the constructor
  raises "Null parameters" with and without the 12-byte source; the 16-byte source
  is accepted and the buffer has 16 bytes.
\<close>

theorem AttributeBuilderOwn_source_not_examined_witness:
  "AttributeBuilderOwn 4 0 uint32_scalar 4 (Some source12) = Inl (runtime_error ''Null parameters'') \<and>
   AttributeBuilderOwn 4 0 uint32_scalar 4 None = Inl (runtime_error ''Null parameters'') \<and>
   (\<exists>buffer. AttributeBuilderOwn 4 4096 uint32_scalar 4 (Some source16)
       = Inr (Own buffer \<lparr> descriptor = uint32_scalar, a_begin = 4096, a_end = 4112 \<rparr>) \<and>
       length buffer = 16)"
proof -
  have null: "AttributeBuilderOwn 4 0 uint32_scalar 4 (Some source12) = Inl (runtime_error ''Null parameters'')"
    by (simp add: AttributeBuilderOwn_def Let_def and_then_def Attribute_ctor_def)
  have none: "AttributeBuilderOwn 4 4096 uint32_scalar 4 None
      = Inr (Own (replicate 16 0) \<lparr> descriptor = uint32_scalar, a_begin = 4096, a_end = 4112 \<rparr>)"
    using Attribute_ctor_uint32_scalar by (simp add: AttributeBuilderOwn_def Let_def and_then_def)
  have len: "(0::nat) < 4 \<and> unat (4 :: size_t) * 4 \<le> length source16"
    by (simp add: source16_def)
  from AttributeBuilderOwn_source_not_examined
         [of 4 0 uint32_scalar 4 source12 "runtime_error ''Null parameters''"]
       null
  have 1: "AttributeBuilderOwn 4 0 uint32_scalar 4 None = Inl (runtime_error ''Null parameters'')"
    by simp
  from AttributeBuilderOwn_source_not_examined
         [of 4 4096 uint32_scalar 4 source16 _ "Some source16" _
             "Own (replicate 16 0) \<lparr> descriptor = uint32_scalar, a_begin = 4096, a_end = 4112 \<rparr>"]
       none len
  obtain buffer where 2: "AttributeBuilderOwn 4 4096 uint32_scalar 4 (Some source16)
       = Inr (Own buffer \<lparr> descriptor = uint32_scalar, a_begin = 4096, a_end = 4112 \<rparr>)"
    by auto
  from AttributeBuilderOwn_source_not_examined
         [of 4 4096 uint32_scalar 4 source16 _ "Some source16"
             "Own buffer \<lparr> descriptor = uint32_scalar, a_begin = 4096, a_end = 4112 \<rparr>"] 2
  have "length buffer = 16" by simp
  with null 1 2 show ?thesis by blast
qed

subsection \<open>The convenience functions\<close>

text \<open>
  The strings of \<^verbatim>\<open>add_vertices\<close>, \<^verbatim>\<open>add_indexes\<close>, \<^verbatim>\<open>add_uvs\<close> and
  \<^verbatim>\<open>add_uv2s\<close> name an attribute type other than the one \<^verbatim>\<open>to_string\<close>
  generates for their data type, so each of these functions raises the internal
  error of \<^verbatim>\<open>from_string\<close> when the return of \<^verbatim>\<open>to_string\<close> is read by value;
  as written, each reaches the copy from the destroyed temporary.
\<close>

lemma stoi_small_more: "stoi ''1'' = Inr 1" "stoi ''2'' = Inr 2"
  by (simp_all add: stoi_def isspace_def isdigit_def digits_value_def Let_def)

lemma from_string_of_helpers:
  "from_string by_value ''g3d:vertex:coordinate:0:float32:3'' = Inl internal_error"
  "from_string by_value ''g3d:corner:index:0:int32:1'' = Inl internal_error"
  "from_string by_value ''g3d:vertex:uv:0:float32:2'' = Inl internal_error"
  "from_string by_value ''g3d:vertex:uv:1:float32:2'' = Inl internal_error"
  by (simp_all add: from_string_def split_str.simps getline_def next_token_def stoi_small
      stoi_small_more registry_defs validate_def string_defs ostream_int_small internal_error_def)

lemma helpers_raise:
  "add_vertices by_value alloc size' data g = (Inl internal_error, g)"
  "add_indexes by_value alloc size' data g = (Inl internal_error, g)"
  "add_uvs by_value alloc size' data g = (Inl internal_error, g)"
  "add_uv2s by_value alloc size' data g = (Inl internal_error, g)"
  by (simp_all add: add_vertices_def add_indexes_def add_uvs_def add_uv2s_def
      add_attribute_str_def from_string_of_helpers)

lemma helpers_undefined_as_written:
  "add_vertices as_written alloc size' data g = (Inl undefined_behaviour, g)"
  "add_indexes as_written alloc size' data g = (Inl undefined_behaviour, g)"
  "add_uvs as_written alloc size' data g = (Inl undefined_behaviour, g)"
  "add_uv2s as_written alloc size' data g = (Inl undefined_behaviour, g)"
  by (simp_all add: add_vertices_def add_indexes_def add_uvs_def add_uv2s_def
      add_attribute_str_def from_string_def split_str.simps getline_def next_token_def
      stoi_small stoi_small_more registry_defs validate_def string_defs ostream_int_small
      to_string_copy_as_written)

text \<open>
  The name \<open>map_channel_data\<close> is looked up, and missed, before \<^verbatim>\<open>to_string\<close> is
  called: the exception is the same under both readings.
\<close>

lemma from_string_map_channel_data:
  "from_string rd ''g3d:none:map_channel_data:0:float32:3'' = Inl out_of_range"
  by (simp add: from_string_def split_str.simps getline_def next_token_def and_then_def registry_defs)

lemma from_string_vertex_uv_3:
  "from_string by_value ''g3d:vertex:uv:0:float32:3''
     = Inl (runtime_error ''Internal error: parsed attribute descriptor does not match generated attribute descriptor'')"
  "from_string as_written ''g3d:vertex:uv:0:float32:3'' = Inl undefined_behaviour"
  by (simp_all add: from_string_def split_str.simps getline_def next_token_def stoi_small
      registry_defs validate_def string_defs ostream_int_small to_string_copy_as_written)

lemma add_map_channel_data_raises:
  "add_map_channel_data rd alloc id' size' data g = (Inl out_of_range, g)"
  by (simp add: add_map_channel_data_def from_string_map_channel_data)

lemma add_map_channel_always_raises:
  "add_map_channel rd alloc1 alloc2 id' tv ntv ti ntf g = (Inl out_of_range, g)"
  by (simp add: add_map_channel_def add_map_channel_data_raises)

text \<open>
  C7: \<^verbatim>\<open>add_map_channel\<close> with id 1, 3 texture vertices and 2 texture faces on an
  empty collection raises \<^verbatim>\<open>std::out_of_range\<close>, from the lookup of the name
  \<open>map_channel_data\<close> in \<^verbatim>\<open>from_string\<close>, and the collection stays empty, under
  both readings of the return of \<^verbatim>\<open>to_string\<close>.
\<close>

theorem add_map_channel_raises:
  "add_map_channel by_value 4096 8192 1 12288 3 16384 2 (G3d_ctor 3 2 6 3)
     = (Inl out_of_range, G3d_ctor 3 2 6 3) \<and>
   add_map_channel as_written 4096 8192 1 12288 3 16384 2 (G3d_ctor 3 2 6 3)
     = (Inl out_of_range, G3d_ctor 3 2 6 3) \<and>
   dom (builders (G3d_ctor 3 2 6 3)) = {}"
  by (simp add: add_map_channel_always_raises G3d_ctor_def)

lemma add_vertex_normals_always_raises:
  "add_vertex_normals by_value alloc size' data g
     = (Inl (runtime_error ''Internal error: parsed attribute descriptor does not match generated attribute descriptor''), g)"
  "add_vertex_normals as_written alloc size' data g = (Inl undefined_behaviour, g)"
  by (simp_all add: add_vertex_normals_def add_attribute_str_def from_string_vertex_uv_3)

text \<open>
  C10: \<^verbatim>\<open>add_vertex_normals\<close> on an empty collection registers nothing. With the
  return of \<^verbatim>\<open>to_string\<close> read by value it raises the internal error of
  \<^verbatim>\<open>from_string\<close> (the string generated for the parsed descriptor names the
  attribute type \<open>color\<close>, not \<open>uv\<close>); as written, \<^verbatim>\<open>from_string\<close> copies that
  string from the destroyed temporary. The collection stays empty.
\<close>

theorem add_vertex_normals_raises:
  "add_vertex_normals by_value 4096 9 8192 (G3d_ctor 3 1 3 3)
     = (Inl (runtime_error ''Internal error: parsed attribute descriptor does not match generated attribute descriptor''),
        G3d_ctor 3 1 3 3) \<and>
   add_vertex_normals as_written 4096 9 8192 (G3d_ctor 3 1 3 3)
     = (Inl undefined_behaviour, G3d_ctor 3 1 3 3) \<and>
   dom (builders (G3d_ctor 3 1 3 3)) = {}"
  by (simp add: add_vertex_normals_always_raises G3d_ctor_def)

subsection \<open>Container framing\<close>

lemma bytes_sum:
  "(i::int) mod 2 ^ 8 + 2 ^ 8 * (i div 2 ^ 8 mod 2 ^ 8) + 2 ^ 16 * (i div 2 ^ 16 mod 2 ^ 8)
     + 2 ^ 24 * (i div 2 ^ 24 mod 2 ^ 8) = i mod 2 ^ 32"
proof -
  have a: "i mod 2 ^ 16 = i mod 2 ^ 8 + 2 ^ 8 * (i div 2 ^ 8 mod 2 ^ 8)"
    using mod_mult2_eq' [of i "2 ^ 8" "2 ^ 8"] by simp
  have b: "i mod 2 ^ 24 = i mod 2 ^ 16 + 2 ^ 16 * (i div 2 ^ 16 mod 2 ^ 8)"
    using mod_mult2_eq' [of i "2 ^ 16" "2 ^ 8"] by simp
  have c: "i mod 2 ^ 32 = i mod 2 ^ 24 + 2 ^ 24 * (i div 2 ^ 24 mod 2 ^ 8)"
    using mod_mult2_eq' [of i "2 ^ 24" "2 ^ 8"] by simp
  show ?thesis using a b c by simp
qed

lemma uint_byte_of_int: "uint (word_of_int k :: byte) = k mod 2 ^ 8"
  by (simp add: uint_word_of_int take_bit_eq_mod)

lemma decode_int32_bytes:
  "decode_int32 [word_of_int a, word_of_int b, word_of_int c, word_of_int d] =
     (let u = a mod 2 ^ 8 + 2 ^ 8 * (b mod 2 ^ 8) + 2 ^ 16 * (c mod 2 ^ 8) + 2 ^ 24 * (d mod 2 ^ 8)
      in if u < 2 ^ 31 then u else u - 2 ^ 32)"
proof -
  have n: "[w0, w1, w2, w3] ! 0 = w0" "[w0, w1, w2, w3] ! 1 = w1"
          "[w0, w1, w2, w3] ! 2 = w2" "[w0, w1, w2, w3] ! 3 = w3" for w0 w1 w2 w3 :: byte
    by simp_all
  show ?thesis
    unfolding decode_int32_def by (simp only: n uint_byte_of_int)
qed

lemma int32_mod: "int32 i \<Longrightarrow> i mod 2 ^ 32 = (if 0 \<le> i then i else i + 2 ^ 32)"
proof (cases "0 \<le> i")
  case True
  assume "int32 i"
  with True have "0 \<le> i" "i < 2 ^ 32" by (simp_all add: int32_def)
  then have "i mod 2 ^ 32 = i" by (rule mod_pos_pos_trivial)
  with True show ?thesis by simp
next
  case False
  assume "int32 i"
  with False have "0 \<le> i + 2 ^ 32" "i + 2 ^ 32 < 2 ^ 32" by (simp_all add: int32_def)
  then have "(i + 2 ^ 32) mod 2 ^ 32 = i + 2 ^ 32" by (rule mod_pos_pos_trivial)
  with False show ?thesis by simp
qed

lemma decode_encode_int32: "int32 i \<Longrightarrow> decode_int32 (encode_int32 i) = i"
proof -
  assume r: "int32 i"
  have "decode_int32 (encode_int32 i)
      = (let u = i mod 2 ^ 32 in if u < 2 ^ 31 then u else u - 2 ^ 32)"
    unfolding encode_int32_def by (simp only: decode_int32_bytes bytes_sum)
  also have "\<dots> = i"
  proof (cases "0 \<le> i")
    case True
    with r show ?thesis by (simp only: int32_mod Let_def) (simp add: int32_def)
  next
    case False
    with r show ?thesis by (simp only: int32_mod Let_def) (simp add: int32_def)
  qed
  finally show ?thesis .
qed

lemma length_encode_int32: "length (encode_int32 i) = 4"
  by (simp add: encode_int32_def)

lemma length_encode_descriptor: "length (encode_descriptor d) = 32"
  by (simp add: encode_descriptor_def length_encode_int32)

lemma int32_at_encode:
  "int32_at (encode_int32 a @ encode_int32 b @ encode_int32 c @ encode_int32 d
             @ encode_int32 e @ pad) 0 = decode_int32 (encode_int32 a)"
  "int32_at (encode_int32 a @ encode_int32 b @ encode_int32 c @ encode_int32 d
             @ encode_int32 e @ pad) (Suc 0) = decode_int32 (encode_int32 b)"
  "int32_at (encode_int32 a @ encode_int32 b @ encode_int32 c @ encode_int32 d
             @ encode_int32 e @ pad) 2 = decode_int32 (encode_int32 c)"
  "int32_at (encode_int32 a @ encode_int32 b @ encode_int32 c @ encode_int32 d
             @ encode_int32 e @ pad) 3 = decode_int32 (encode_int32 d)"
  "int32_at (encode_int32 a @ encode_int32 b @ encode_int32 c @ encode_int32 d
             @ encode_int32 e @ pad) 4 = decode_int32 (encode_int32 e)"
  by (simp_all add: int32_at_def length_encode_int32)

lemma decode_encode_descriptor:
  "int32_fields d \<Longrightarrow> decode_descriptor (encode_descriptor d) = d"
  by (simp add: int32_fields_def decode_descriptor_def encode_descriptor_def int32_at_encode
      decode_encode_int32)

lemma records_of_Cons:
  assumes "length x = 32"
  shows "records_of (x @ t) = x # records_of t"
proof -
  have n: "length (x @ t) div 32 = Suc (length t div 32)" using assms by simp
  have "records_of (x @ t)
      = take 32 (drop (32 * 0) (x @ t))
        # map (\<lambda>i. take 32 (drop (32 * Suc i) (x @ t))) [0 ..< length t div 32]"
    unfolding records_of_def n by (simp only: upt_conv_Cons zero_less_Suc list.map map_Suc_upt [symmetric] map_map o_def)
  also have "take 32 (drop (32 * 0) (x @ t)) = x" using assms by simp
  also have "map (\<lambda>i. take 32 (drop (32 * Suc i) (x @ t))) [0 ..< length t div 32] = records_of t"
    using assms by (simp add: records_of_def)
  finally show ?thesis .
qed

lemma records_of_table:
  "records_of (concat (map (\<lambda>a. encode_descriptor (sa_descriptor a)) coll))
     = map (\<lambda>a. encode_descriptor (sa_descriptor a)) coll"
proof (induction coll)
  case Nil
  show ?case by (simp add: records_of_def)
next
  case (Cons a coll)
  then show ?case by (simp add: records_of_Cons length_encode_descriptor)
qed

lemma pairs_nth:
  "i < length coll \<Longrightarrow>
   concat (map (\<lambda>a. [sa_data a, sa_index a]) coll) ! (2 * i) = sa_data (coll ! i) \<and>
   concat (map (\<lambda>a. [sa_data a, sa_index a]) coll) ! (2 * i + 1) = sa_index (coll ! i)"
proof (induction coll arbitrary: i)
  case Nil
  then show ?case by simp
next
  case (Cons a coll)
  show ?case
  proof (cases i)
    case 0
    then show ?thesis by simp
  next
    case (Suc j)
    with Cons.prems have "j < length coll" by simp
    from Cons.IH [OF this] Suc show ?thesis by simp
  qed
qed

lemma length_pairs: "length (concat (map (\<lambda>a. [sa_data a, sa_index a]) coll)) = 2 * length coll"
  by (induction coll) simp_all

lemma validate_all_ok:
  "\<forall>a \<in> set coll. validate (sa_descriptor a) = Inr () \<Longrightarrow>
   validate_all (map sa_descriptor coll) = Inr ()"
  by (induction coll) (simp_all add: and_then_def)

text \<open>
  C8: for a collection of well-formed attributes, the writer emits \<open>2 + 2 * N\<close>
  arrays: the metadata, the descriptor table of \<open>32 * N\<close> bytes, and for attribute
  \<open>i\<close> its data at \<open>2 + 2 * i\<close> and its index at \<open>2 + 2 * i + 1\<close>; the reader,
  applied to these arrays, returns the metadata and the collection, descriptor by
  descriptor and byte by byte.
\<close>

theorem container_round_trip:
  assumes wf: "\<forall>a \<in> set coll. well_formed a"
  shows "length (write_container metadata coll) = 2 + 2 * length coll \<and>
         length (write_container metadata coll ! 1) = 32 * length coll \<and>
         (\<forall>i < length coll.
            write_container metadata coll ! (2 + 2 * i) = sa_data (coll ! i) \<and>
            write_container metadata coll ! (2 + 2 * i + 1) = sa_index (coll ! i)) \<and>
         read_container (write_container metadata coll) = Inr (metadata, coll)"
proof -
  let ?table = "concat (map (\<lambda>a. encode_descriptor (sa_descriptor a)) coll)"
  let ?pairs = "concat (map (\<lambda>a. [sa_data a, sa_index a]) coll)"
  let ?w = "write_container metadata coll"
  have w: "?w = metadata # ?table # ?pairs" by (simp add: write_container_def)
  have len: "length ?w = 2 + 2 * length coll" by (simp add: w length_pairs)
  have tab: "length (?w ! 1) = 32 * length coll"
    unfolding w by (induction coll) (simp_all add: length_encode_descriptor)
  have arr: "?w ! (2 + 2 * i) = sa_data (coll ! i) \<and> ?w ! (2 + 2 * i + 1) = sa_index (coll ! i)"
    if "i < length coll" for i
    using pairs_nth [OF that] by (simp add: w)
  have descs: "map decode_descriptor (records_of ?table) = map sa_descriptor coll"
    using wf by (simp add: records_of_table well_formed_def decode_encode_descriptor)
  have attrs: "map (\<lambda>i. \<lparr> sa_descriptor = map sa_descriptor coll ! i,
                            sa_data = ?w ! (2 + 2 * i), sa_index = ?w ! (2 + 2 * i + 1) \<rparr>)
                 [0 ..< length coll] = coll"
  proof (rule nth_equalityI)
    show "length (map (\<lambda>i. \<lparr> sa_descriptor = map sa_descriptor coll ! i,
                            sa_data = ?w ! (2 + 2 * i), sa_index = ?w ! (2 + 2 * i + 1) \<rparr>)
                 [0 ..< length coll]) = length coll" by simp
  next
    fix i
    assume "i < length (map (\<lambda>i. \<lparr> sa_descriptor = map sa_descriptor coll ! i,
                            sa_data = ?w ! (2 + 2 * i), sa_index = ?w ! (2 + 2 * i + 1) \<rparr>)
                 [0 ..< length coll])"
    then have i: "i < length coll" by simp
    from arr [OF i] i
    show "map (\<lambda>i. \<lparr> sa_descriptor = map sa_descriptor coll ! i,
                            sa_data = ?w ! (2 + 2 * i), sa_index = ?w ! (2 + 2 * i + 1) \<rparr>)
                 [0 ..< length coll] ! i = coll ! i" by simp
  qed
  have val: "validate_all (map sa_descriptor coll) = Inr ()"
    using wf by (simp add: validate_all_ok well_formed_def)
  have al: "list_all (\<lambda>a. data_array_aligned (sa_descriptor a) (sa_data a)) coll"
    using wf by (simp add: list_all_iff well_formed_def)
  have "read_container (metadata # ?table # ?pairs) = Inr (metadata, coll)"
    unfolding read_container_def
    using len attrs val al by (simp add: descs w Let_def)
  with len tab arr show ?thesis by (simp add: w)
qed

lemma scenario_well_formed: "\<forall>a \<in> set scenario. well_formed a"
  by (simp add: scenario_def well_formed_def validate_def int32_fields_def int32_def
      data_array_aligned_def data_type_size_def vertex_coordinate_def corner_index_def
      vertex_bytes_def index_bytes_def DataType_defs Association_defs AttributeType_defs)

text \<open>
  C8 on the scenario: 6 arrays, a descriptor table of 64 bytes, data arrays of 48
  and 24 bytes, empty index arrays, and the reader returns the two attributes.
\<close>

theorem container_round_trip_witness:
  "list_all well_formed scenario \<and>
   length (write_container scenario_metadata scenario) = 6 \<and>
   write_container scenario_metadata scenario ! 0 = scenario_metadata \<and>
   length (write_container scenario_metadata scenario ! 1) = 64 \<and>
   write_container scenario_metadata scenario ! 2 = vertex_bytes \<and> length vertex_bytes = 48 \<and>
   write_container scenario_metadata scenario ! 3 = [] \<and>
   write_container scenario_metadata scenario ! 4 = index_bytes \<and> length index_bytes = 24 \<and>
   write_container scenario_metadata scenario ! 5 = [] \<and>
   read_container (write_container scenario_metadata scenario)
     = Inr (scenario_metadata, scenario)"
proof -
  note rt = container_round_trip [OF scenario_well_formed, of scenario_metadata]
  have n: "length scenario = 2" by (simp add: scenario_def)
  from rt have len: "length (write_container scenario_metadata scenario) = 6"
    and tab: "length (write_container scenario_metadata scenario ! 1) = 64"
    and rd: "read_container (write_container scenario_metadata scenario)
               = Inr (scenario_metadata, scenario)"
    by (simp_all add: n)
  from rt have arr: "\<forall>i < 2.
      write_container scenario_metadata scenario ! (2 + 2 * i) = sa_data (scenario ! i) \<and>
      write_container scenario_metadata scenario ! (2 + 2 * i + 1) = sa_index (scenario ! i)"
    by (simp only: n) blast
  from arr have a0: "write_container scenario_metadata scenario ! (2 + 2 * 0) = sa_data (scenario ! 0) \<and>
      write_container scenario_metadata scenario ! (2 + 2 * 0 + 1) = sa_index (scenario ! 0)"
    by (rule allE [of _ 0]) simp
  from arr have a1: "write_container scenario_metadata scenario ! (2 + 2 * 1) = sa_data (scenario ! 1) \<and>
      write_container scenario_metadata scenario ! (2 + 2 * 1 + 1) = sa_index (scenario ! 1)"
    by (rule allE [of _ 1]) simp
  have m: "write_container scenario_metadata scenario ! 0 = scenario_metadata"
    by (simp add: write_container_def)
  have l: "length vertex_bytes = 48" "length index_bytes = 24"
    by (simp_all add: vertex_bytes_def index_bytes_def)
  from a0 a1 have
    "write_container scenario_metadata scenario ! 2 = vertex_bytes"
    "write_container scenario_metadata scenario ! 3 = []"
    "write_container scenario_metadata scenario ! 4 = index_bytes"
    "write_container scenario_metadata scenario ! 5 = []"
    by (simp_all add: scenario_def)
  moreover have "list_all well_formed scenario"
    using scenario_well_formed by (simp only: list_all_iff)
  ultimately show ?thesis using len tab rd m l by simp
qed

end
